theory Spec2Isabelle
  imports Complex_Main "HOL-Library.Log_Nat"
begin

section \<open>Strings, numbers and dates as the server formats them\<close>

text \<open>
  \<open>Number.prototype.toString\<close> on a non-negative integer: its decimal digits, most
  significant first, with no leading zero.
\<close>

definition digit :: "nat \<Rightarrow> char" where
  "digit d = ''0123456789'' ! d"

function toString :: "nat \<Rightarrow> string" where
  "toString n = (if n < 10 then [digit n] else toString (n div 10) @ [digit (n mod 10)])"
  by pat_completeness auto
termination
  by (relation "measure (\<lambda>n. n)") auto

declare toString.simps [simp del]

text \<open>\<open>String.prototype.padStart\<close>: pads on the left up to a minimum width, never cuts.\<close>

definition padStart :: "nat \<Rightarrow> char \<Rightarrow> string \<Rightarrow> string" where
  "padStart n c s = replicate (n - length s) c @ s"

text \<open>
  The clock reading, as the UTC calendar date that \<open>new Date().toISOString()\<close> prints.
  \<open>toISOString_date\<close> is the date part of the ISO string: four digits for the years 0 to
  9999, a sign and six digits beyond.
\<close>

record utc_date =
  year :: nat
  month :: nat
  day :: nat

definition valid_date :: "utc_date \<Rightarrow> bool" where
  "valid_date d \<longleftrightarrow> year d \<le> 9999 \<and> 1 \<le> month d \<and> month d \<le> 12 \<and> 1 \<le> day d \<and> day d \<le> 31"

definition toISOString_date :: "utc_date \<Rightarrow> string" where
  "toISOString_date d =
     (if year d \<le> 9999 then padStart 4 CHR ''0'' (toString (year d))
      else CHR ''+'' # padStart 6 CHR ''0'' (toString (year d)))
     @ ''-'' @ padStart 2 CHR ''0'' (toString (month d))
     @ ''-'' @ padStart 2 CHR ''0'' (toString (day d))"

text \<open>\<open>today.toISOString().slice(0, 10).replace(/-/g, '')\<close>\<close>

definition dateStr_of :: "utc_date \<Rightarrow> string" where
  "dateStr_of today = filter (\<lambda>c. c \<noteq> CHR ''-'') (take 10 (toISOString_date today))"

text \<open>Reading a digit string back; used to speak about the sequence part of a reference.\<close>

definition digitVal :: "char \<Rightarrow> nat" where
  "digitVal c = length (takeWhile (\<lambda>d. d \<noteq> c) ''0123456789'')"

definition isDigit :: "char \<Rightarrow> bool" where
  "isDigit c \<longleftrightarrow> c \<in> set ''0123456789''"

definition parseDigits :: "string \<Rightarrow> nat" where
  "parseDigits s = foldl (\<lambda>a c. 10 * a + digitVal c) 0 s"

section \<open>Money\<close>

text \<open>
  Monetary columns are \<open>decimal(18,2)\<close>, which the driver hands over as decimal strings
  with two fractional digits: a column value is kept here as a whole number of centavos, so
  \<open>''700.00''\<close> is \<open>70000\<close>. The amount of a request is a string that the server parses. It is
  taken to be a decimal literal and is kept as the number it denotes, in centavos as well, so
  \<open>''700.00''\<close> is \<open>70000\<close> and \<open>''0.005''\<close> is \<open>1 / 2\<close>.
\<close>

type_synonym money = int

type_synonym amount = rat

subsection \<open>The arithmetic of a posting\<close>

text \<open>
  The server computes every new balance as
  \<open>(parseFloat(balance) + parseFloat(amount)).toFixed(2)\<close>, or with \<open>-\<close>: it reads the two
  decimal strings as doubles, adds or subtracts in doubles, and prints the result with two
  decimals. A finite double is kept here as the rational number it is.

  \<open>fl\<close> rounds a rational to the nearest double, ties to the even significand: the doubles
  around \<open>x\<close> are the multiples of \<open>2 powi (e - 52)\<close>, where \<open>2 powi e \<le> \<bar>x\<bar> < 2 powi (e + 1)\<close>
  and \<open>e\<close> is at least \<open>- 1022\<close> (below that the doubles are subnormal and equally spaced).
  \<open>binade\<close> computes that \<open>e\<close> from the bit lengths of numerator and denominator. Magnitudes
  from \<open>2 ^ 1024\<close> on, which a double rounds to infinity, are far beyond every
  \<open>decimal(18,2)\<close> amount and are not modelled.
\<close>

definition roundTiesToEven :: "rat \<Rightarrow> int" where
  "roundTiesToEven q =
     (let f = \<lfloor>q\<rfloor>; d = q - of_int f
      in if d < 1 / 2 then f else if 1 / 2 < d then f + 1 else if even f then f else f + 1)"

definition binade :: "rat \<Rightarrow> int" where
  "binade x =
     (let (p, q) = quotient_of \<bar>x\<bar>; e = bitlen p - bitlen q
      in if 2 powi e \<le> \<bar>x\<bar> then e else e - 1)"

definition fl :: "rat \<Rightarrow> rat" where
  "fl x = (let ulp = 2 powi (max (binade x) (- 1022) - 52)
           in of_int (roundTiesToEven (x / ulp)) * ulp)"

text \<open>\<open>parseFloat\<close> of the decimal string of an amount of centavos.\<close>

definition parseFloat :: "money \<Rightarrow> rat" where
  "parseFloat c = fl (of_int c / 100)"

text \<open>\<open>parseFloat\<close> of the amount string of a request: the double nearest to the pesos.\<close>

definition parseAmount :: "amount \<Rightarrow> rat" where
  "parseAmount x = fl (x / 100)"

text \<open>
  \<open>Number.prototype.toFixed(2)\<close>, read back as centavos: the integer \<open>n\<close> with \<open>n / 100\<close>
  nearest to the exact value of the double, the larger \<open>n\<close> on a tie, the sign set apart.
  (From \<open>10 ^ 21\<close> on \<open>toFixed\<close> prints an exponent instead; no amount comes near. Nor
  does any come near the sixteen integer digits beyond which a \<open>decimal(18,2)\<close> column
  refuses a value.)
\<close>

definition toFixed2 :: "rat \<Rightarrow> money" where
  "toFixed2 x = (if x < 0 then - \<lfloor>- x * 100 + 1 / 2\<rfloor> else \<lfloor>x * 100 + 1 / 2\<rfloor>)"

definition postedSum :: "money \<Rightarrow> money \<Rightarrow> money" where
  "postedSum b a = toFixed2 (fl (parseFloat b + parseFloat a))"

definition postedDifference :: "money \<Rightarrow> money \<Rightarrow> money" where
  "postedDifference b a = toFixed2 (fl (parseFloat b - parseFloat a))"

text \<open>
  What a \<open>decimal(18,2)\<close> column keeps of an amount string that a procedure hands to the
  database as it came: MySQL rounds a decimal literal to the scale of the column, half away
  from zero.
\<close>

definition storeDecimal :: "amount \<Rightarrow> money" where
  "storeDecimal x = (if x < 0 then - \<lfloor>- x + 1 / 2\<rfloor> else \<lfloor>x + 1 / 2\<rfloor>)"

section \<open>Tables\<close>

text \<open>
  A row has the columns the functions read or write. The columns the database fills in by
  itself (\<open>id\<close> of ledger rows and interbank records, \<open>createdAt\<close>, \<open>updatedAt\<close>, \<open>sentAt\<close>)
  and the constant \<open>productType\<close> of accounts are left out.
\<close>

datatype account_status = active | closed

record account =
  acc_id :: nat
  customerId :: nat
  branchCode :: string
  accountNumber :: string
  balance :: money
  acc_status :: account_status

datatype transaction_type = DEPOSIT | WITHDRAWAL | INTERNAL_TRANSFER | INSTAPAY

record transaction =
  referenceNumber :: string
  accountId :: nat
  tx_type :: transaction_type
  amount :: money
  balanceAfter :: money
  relatedAccountId :: "nat option"
  relatedAccountNumber :: "string option"
  description :: "string option"

datatype instapay_status = PENDING | SUCCESS | FAILED

record instapayTransaction =
  ip_referenceNumber :: string
  switchReferenceNumber :: "string option"
  sourceAccountId :: nat
  sourceAccountNumber :: string
  bankName :: string
  bankCode :: string
  ip_accountNumber :: string
  accountName :: string
  ip_amount :: money
  status :: instapay_status
  statusMessage :: "string option"

text \<open>
  The database: one list of rows per table, in insertion order, and the
  \<open>transactionSequence\<close> table as a map from its unique \<open>date\<close> column to
  \<open>lastSequence\<close>. \<open>getDb\<close> is taken to return the connection. Every statement is a
  promise. \<open>sequenceStoreDown\<close> says that the statements against \<open>transactionSequence\<close>
  reject. An insert into \<open>transactions\<close> or \<open>instapayTransactions\<close> rejects when the table
  already holds the \<open>referenceNumber\<close> of the new row, which is a unique column of both
  (schema.ts), and appends the row otherwise. The other statements are taken to succeed.
\<close>

record db =
  accounts :: "account list"
  transactions :: "transaction list"
  instapayTransactions :: "instapayTransaction list"
  transactionSequence :: "string \<rightharpoonup> nat"
  sequenceStoreDown :: bool

datatype trpc_code = NOT_FOUND | BAD_REQUEST | INTERNAL_SERVER_ERROR

text \<open>
  What a function throws: a plain \<open>Error\<close>, a \<open>TRPCError\<close>, the rejection of a procedure's
  input by its zod schema, or the rejection of a database statement.
\<close>

datatype exn = Error string | TRPCError trpc_code string | ZodError string | QueryRejected

text \<open>\<open>x || d\<close> on an optional string: the empty string is falsy too.\<close>

definition orElse :: "string option \<Rightarrow> string \<Rightarrow> string" where
  "orElse x d = (case x of None \<Rightarrow> d | Some v \<Rightarrow> if v = [] then d else v)"

definition orElseOpt :: "string option \<Rightarrow> string option \<Rightarrow> string option" where
  "orElseOpt x d = (case x of None \<Rightarrow> d | Some v \<Rightarrow> if v = [] then d else Some v)"

text \<open>\<open>db.insert(transactions).values(row)\<close> and \<open>db.insert(instapayTransactions).values(row)\<close>.\<close>

definition insertTransaction :: "transaction \<Rightarrow> db \<Rightarrow> db option" where
  "insertTransaction row s =
     (if referenceNumber row \<in> set (map referenceNumber (transactions s)) then None
      else Some (s\<lparr>transactions := transactions s @ [row]\<rparr>))"

definition insertInstapayTransaction :: "instapayTransaction \<Rightarrow> db \<Rightarrow> db option" where
  "insertInstapayTransaction row s =
     (if ip_referenceNumber row \<in> set (map ip_referenceNumber (instapayTransactions s)) then None
      else Some (s\<lparr>instapayTransactions := instapayTransactions s @ [row]\<rparr>))"

section \<open>Reference numbers\<close>

definition referenceOf :: "string \<Rightarrow> nat \<Rightarrow> string" where
  "referenceOf dateStr sequence = ''TXN'' @ dateStr @ padStart 6 CHR ''0'' (toString sequence)"

definition generateTransactionReference :: "utc_date \<Rightarrow> db \<Rightarrow> (exn + string) \<times> db" where
  "generateTransactionReference today s =
     (let dateStr = dateStr_of today in
      if sequenceStoreDown s then (Inl QueryRejected, s)
      else case transactionSequence s dateStr of
        Some lastSequence \<Rightarrow>
          (let sequence = lastSequence + 1 in
           (Inr (referenceOf dateStr sequence),
            s\<lparr>transactionSequence := (transactionSequence s)(dateStr \<mapsto> sequence)\<rparr>))
      | None \<Rightarrow>
          (Inr (referenceOf dateStr 1),
           s\<lparr>transactionSequence := (transactionSequence s)(dateStr \<mapsto> 1)\<rparr>))"

text \<open>\<open>M\<close> calls in a row, each on the state the one before left.\<close>

fun generateReferences :: "utc_date \<Rightarrow> nat \<Rightarrow> db \<Rightarrow> (exn + string) list \<times> db" where
  "generateReferences today 0 s = ([], s)"
| "generateReferences today (Suc m) s =
     (let (r, s1) = generateTransactionReference today s;
          (rs, s2) = generateReferences today m s1
      in (r # rs, s2))"

section \<open>Accounts and the ledger\<close>

definition getAccountById :: "db \<Rightarrow> nat \<Rightarrow> account option" where
  "getAccountById s i = find (\<lambda>a. acc_id a = i) (accounts s)"

definition getAccountByNumber :: "db \<Rightarrow> string \<Rightarrow> account option" where
  "getAccountByNumber s n = find (\<lambda>a. accountNumber a = n) (accounts s)"

definition updateAccountBalance :: "nat \<Rightarrow> money \<Rightarrow> db \<Rightarrow> db" where
  "updateAccountBalance i newBalance s =
     s\<lparr>accounts := map (\<lambda>a. if acc_id a = i then a\<lparr>balance := newBalance\<rparr> else a) (accounts s)\<rparr>"

text \<open>
  \<open>createTransaction\<close> draws the reference number, inserts the row and returns it as the
  table holds it. The arguments are the fields of its \<open>data\<close> object, in the order of the
  declaration; \<open>amt\<close> is the amount string the caller built.
\<close>

definition createTransaction ::
  "utc_date \<Rightarrow> nat \<Rightarrow> transaction_type \<Rightarrow> amount \<Rightarrow> money \<Rightarrow> nat option \<Rightarrow> string option \<Rightarrow>
   string option \<Rightarrow> db \<Rightarrow> (exn + transaction) \<times> db" where
  "createTransaction today accId ty amt balAfter relId relNumber descr s =
     (case generateTransactionReference today s of
        (Inl e, s1) \<Rightarrow> (Inl e, s1)
      | (Inr reference, s1) \<Rightarrow>
          (let row = \<lparr>referenceNumber = reference, accountId = accId, tx_type = ty,
                       amount = storeDecimal amt, balanceAfter = balAfter, relatedAccountId = relId,
                       relatedAccountNumber = relNumber, description = descr\<rparr>
           in case insertTransaction row s1 of
                None \<Rightarrow> (Inl QueryRejected, s1)
              | Some s2 \<Rightarrow> (Inr row, s2)))"

section \<open>The tRPC procedures (routers.ts)\<close>

text \<open>
  Each procedure takes the clock reading of every reference it draws, its input fields and
  the database, and returns what it returns or throws together with the database it leaves:
  a throw keeps the writes made before it.
\<close>

definition deposit ::
  "utc_date \<Rightarrow> nat \<Rightarrow> amount \<Rightarrow> string option \<Rightarrow> db \<Rightarrow> (exn + transaction) \<times> db" where
  "deposit today accId amt descr s =
     (if \<not> parseAmount amt > 0 then (Inl (ZodError ''Amount must be positive''), s)
      else case getAccountById s accId of
        None \<Rightarrow> (Inl (TRPCError NOT_FOUND ''Account not found''), s)
      | Some account \<Rightarrow>
          (let currentBalance = parseFloat (balance account);
               depositAmount = parseAmount amt;
               newBalance = toFixed2 (fl (currentBalance + depositAmount));
               s1 = updateAccountBalance accId newBalance s
           in createTransaction today accId DEPOSIT amt newBalance None None
                (Some (orElse descr ''Manual Deposit'')) s1))"

definition withdraw ::
  "utc_date \<Rightarrow> nat \<Rightarrow> amount \<Rightarrow> string option \<Rightarrow> db \<Rightarrow> (exn + transaction) \<times> db" where
  "withdraw today accId amt descr s =
     (if \<not> parseAmount amt > 0 then (Inl (ZodError ''Amount must be positive''), s)
      else case getAccountById s accId of
        None \<Rightarrow> (Inl (TRPCError NOT_FOUND ''Account not found''), s)
      | Some account \<Rightarrow>
          (let currentBalance = parseFloat (balance account);
               withdrawAmount = parseAmount amt
           in if withdrawAmount > currentBalance
              then (Inl (TRPCError BAD_REQUEST ''Insufficient balance''), s)
              else
                (let newBalance = toFixed2 (fl (currentBalance - withdrawAmount));
                     s1 = updateAccountBalance accId newBalance s
                 in createTransaction today accId WITHDRAWAL (- amt) newBalance None None
                      (Some (orElse descr ''Manual Withdrawal'')) s1)))"

text \<open>
  \<open>internalTransfer\<close> draws two references, one per ledger row, and so reads the clock
  twice. It returns the sender's row.
\<close>

definition internalTransfer ::
  "utc_date \<Rightarrow> utc_date \<Rightarrow> nat \<Rightarrow> string \<Rightarrow> amount \<Rightarrow> string option \<Rightarrow> db \<Rightarrow>
   (exn + transaction) \<times> db" where
  "internalTransfer today1 today2 fromAccountId toAccountNumber amt descr s =
     (if length toAccountNumber \<noteq> 10
      then (Inl (ZodError ''String must contain exactly 10 character(s)''), s)
      else if \<not> parseAmount amt > 0 then (Inl (ZodError ''Amount must be positive''), s)
      else case getAccountById s fromAccountId of
        None \<Rightarrow> (Inl (TRPCError NOT_FOUND ''Source account not found''), s)
      | Some fromAccount \<Rightarrow>
      (case getAccountByNumber s toAccountNumber of
        None \<Rightarrow> (Inl (TRPCError NOT_FOUND ''Destination account not found''), s)
      | Some toAccount \<Rightarrow>
          if acc_id fromAccount = acc_id toAccount
          then (Inl (TRPCError BAD_REQUEST ''Cannot transfer to the same account''), s)
          else
            (let transferAmount = parseAmount amt;
                 fromBalance = parseFloat (balance fromAccount)
             in if transferAmount > fromBalance
                then (Inl (TRPCError BAD_REQUEST ''Insufficient balance''), s)
                else
                  (let newFromBalance = toFixed2 (fl (fromBalance - transferAmount));
                       newToBalance =
                         toFixed2 (fl (parseFloat (balance toAccount) + transferAmount));
                       s1 = updateAccountBalance (acc_id fromAccount) newFromBalance s;
                       s2 = updateAccountBalance (acc_id toAccount) newToBalance s1
                   in case createTransaction today1 (acc_id fromAccount) INTERNAL_TRANSFER (- amt)
                             newFromBalance (Some (acc_id toAccount))
                             (Some (accountNumber toAccount))
                             (Some (orElse descr (''Transfer to '' @ accountNumber toAccount))) s2 of
                        (Inl e, s3) \<Rightarrow> (Inl e, s3)
                      | (Inr senderTx, s3) \<Rightarrow>
                          (case createTransaction today2 (acc_id toAccount) INTERNAL_TRANSFER amt
                                  newToBalance (Some (acc_id fromAccount))
                                  (Some (accountNumber fromAccount))
                                  (Some (orElse descr
                                     (''Transfer from '' @ accountNumber fromAccount))) s3 of
                             (Inl e, s4) \<Rightarrow> (Inl e, s4)
                           | (Inr receiverTx, s4) \<Rightarrow> (Inr senderTx, s4))))))"

section \<open>The REST withdrawal endpoint\<close>

text \<open>
  A response is an error (HTTP status, code, message), an error whose message ends with a
  number that the template literal prints (HTTP status, code, the text before the number,
  the number), or the success body of a posting (reference number, type, amount, new
  balance, the last two being doubles). A missing body field is falsy: the empty account
  number and the amount zero stand for it. The handler's \<open>catch\<close> turns every throw into
  the 500 response.
\<close>

datatype rest_response =
    RestError nat string string
  | RestErrorNumber nat string string rat
  | RestPosted "string option" transaction_type rat rat

definition rest_withdrawal ::
  "utc_date \<Rightarrow> string \<Rightarrow> amount \<Rightarrow> string option \<Rightarrow> db \<Rightarrow> rest_response \<times> db" where
  "rest_withdrawal today accNumber amt descr s =
     (if accNumber = [] \<or> parseAmount amt = 0 \<or> parseAmount amt \<le> 0
      then (RestError 400 ''VALIDATION_ERROR''
              ''Valid account number and positive amount are required'', s)
      else case getAccountByNumber s accNumber of
        None \<Rightarrow> (RestError 404 ''NOT_FOUND'' ''Account not found'', s)
      | Some account \<Rightarrow>
          if acc_status account = closed
          then (RestError 400 ''ACCOUNT_CLOSED'' ''Cannot withdraw from a closed account'', s)
          else
            (let currentBalance = parseFloat (balance account);
                 withdrawAmount = parseAmount amt
             in if currentBalance < withdrawAmount
                then (RestErrorNumber 400 ''INSUFFICIENT_BALANCE''
                        ''Insufficient balance. Available: '' currentBalance, s)
                else
                  (let newBalance = toFixed2 (fl (currentBalance - withdrawAmount));
                       s1 = updateAccountBalance (acc_id account) newBalance s
                   in case createTransaction today (acc_id account) WITHDRAWAL
                             (- of_int (toFixed2 withdrawAmount))
                             newBalance None None (Some (orElse descr ''Withdrawal via API'')) s1 of
                        (Inl e, s2) \<Rightarrow>
                          (RestError 500 ''INTERNAL_ERROR'' ''Failed to process withdrawal'', s2)
                      | (Inr tx, s2) \<Rightarrow>
                          (RestPosted (Some (referenceNumber tx)) WITHDRAWAL withdrawAmount
                             (parseFloat newBalance), s2))))"

section \<open>Interbank transfers\<close>

record CreateInstapayTransactionInput =
  in_sourceAccountId :: nat
  in_sourceAccountNumber :: string
  in_bankName :: string
  in_bankCode :: string
  in_accountNumber :: string
  in_accountName :: string
  in_amount :: amount


definition getInstapayTransactionByReference :: "db \<Rightarrow> string \<Rightarrow> instapayTransaction option" where
  "getInstapayTransactionByReference s reference =
     find (\<lambda>t. ip_referenceNumber t = reference) (instapayTransactions s)"

text \<open>
  The callback. The first component of \<open>reversed\<close> is what the reversal block throws, if
  it does; the status update follows only when it did not throw.
\<close>

definition updateInstapayTransactionStatus ::
  "utc_date \<Rightarrow> string \<Rightarrow> instapay_status \<Rightarrow> string option \<Rightarrow> string option \<Rightarrow> db \<Rightarrow>
   (exn + instapayTransaction option) \<times> db" where
  "updateInstapayTransactionStatus today reference st switchRef message s =
     (case getInstapayTransactionByReference s reference of
        None \<Rightarrow> (Inl (Error ''Instapay transaction not found''), s)
      | Some existingTx \<Rightarrow>
          (let reversed =
             (if st = FAILED \<and> status existingTx = PENDING then
                (case getAccountById s (sourceAccountId existingTx) of
                   None \<Rightarrow> (None, s)
                 | Some sourceAccount \<Rightarrow>
                     (let currentBalance = parseFloat (balance sourceAccount);
                          refundAmount = parseFloat (ip_amount existingTx);
                          newBalance = toFixed2 (fl (currentBalance + refundAmount));
                          s1 = updateAccountBalance (sourceAccountId existingTx) newBalance s
                      in case generateTransactionReference today s1 of
                           (Inl e, s2) \<Rightarrow> (Some e, s2)
                         | (Inr reversalRef, s2) \<Rightarrow>
                             (case insertTransaction
                                     \<lparr>referenceNumber = reversalRef,
                                      accountId = sourceAccountId existingTx, tx_type = DEPOSIT,
                                      amount = toFixed2 refundAmount, balanceAfter = newBalance,
                                      relatedAccountId = None, relatedAccountNumber = None,
                                      description = Some (''Instapay reversal - '' @ reference
                                        @ '' failed: '' @ orElse message ''Transaction failed'')\<rparr>
                                     s2 of
                                None \<Rightarrow> (Some QueryRejected, s2)
                              | Some s3 \<Rightarrow> (None, s3))))
              else (None, s))
           in case reversed of
                (Some e, s3) \<Rightarrow> (Inl e, s3)
              | (None, s3) \<Rightarrow>
                  (let s4 = s3\<lparr>instapayTransactions :=
                         map (\<lambda>t. if ip_referenceNumber t = reference
                                  then t\<lparr>status := st,
                                         switchReferenceNumber :=
                                           orElseOpt switchRef (switchReferenceNumber existingTx),
                                         statusMessage :=
                                           orElseOpt message (statusMessage existingTx)\<rparr>
                                  else t)
                           (instapayTransactions s3)\<rparr>
                   in (Inr (getInstapayTransactionByReference s4 reference), s4))))"

section \<open>Derived notions used in the statements\<close>

definition lastIssued :: "db \<Rightarrow> utc_date \<Rightarrow> nat" where
  "lastIssued s today = (case transactionSequence s (dateStr_of today) of None \<Rightarrow> 0 | Some n \<Rightarrow> n)"

text \<open>
  The rows of \<open>instapayTransactions\<close> after the callback's \<open>update ... set ... where\<close>,
  named so that statements can refer to it.
\<close>

definition setStatus ::
  "string \<Rightarrow> instapay_status \<Rightarrow> string option \<Rightarrow> string option \<Rightarrow> instapayTransaction \<Rightarrow>
   instapayTransaction list \<Rightarrow> instapayTransaction list" where
  "setStatus reference st switchRef message existingTx ts =
     map (\<lambda>t. if ip_referenceNumber t = reference
              then t\<lparr>status := st,
                     switchReferenceNumber := orElseOpt switchRef (switchReferenceNumber existingTx),
                     statusMessage := orElseOpt message (statusMessage existingTx)\<rparr>
              else t) ts"

text \<open>
  A run of callbacks for one reference number, each with its clock reading, status, switch
  reference and message, each applied to the database the one before left.
\<close>

type_synonym callback = "utc_date \<times> instapay_status \<times> string option \<times> string option"

fun applyInterbankCallbacks :: "string \<Rightarrow> callback list \<Rightarrow> db \<Rightarrow> db" where
  "applyInterbankCallbacks reference [] s = s"
| "applyInterbankCallbacks reference ((today, st, switchRef, message) # cs) s =
     applyInterbankCallbacks reference cs
       (snd (updateInstapayTransactionStatus today reference st switchRef message s))"

section \<open>A small database for the concrete instances\<close>

definition ex_today :: utc_date where
  "ex_today = \<lparr>year = 2026, month = 1, day = 15\<rparr>"

definition ex_account :: account where
  "ex_account = \<lparr>acc_id = 1, customerId = 1, branchCode = ''001'', accountNumber = ''0011234567'',
     balance = 70000, acc_status = active\<rparr>"

definition ex_db :: db where
  "ex_db = \<lparr>accounts = [ex_account], transactions = [], instapayTransactions = [],
     transactionSequence = Map.empty, sequenceStoreDown = False\<rparr>"

text \<open>The same database with the account closed.\<close>

definition ex_closed :: db where
  "ex_closed = ex_db\<lparr>accounts := [ex_account\<lparr>acc_status := closed\<rparr>]\<rparr>"

definition ex_input :: CreateInstapayTransactionInput where
  "ex_input = \<lparr>in_sourceAccountId = 1, in_sourceAccountNumber = ''0011234567'',
     in_bankName = ''BDO Unibank'', in_bankCode = ''BDO'', in_accountNumber = ''3333333333'',
     in_accountName = ''Rosa Lim'', in_amount = 60000\<rparr>"

text \<open>The database after \<open>createInstapayTransaction ex_today ex_input ex_db\<close>.\<close>

definition ex_sent :: db where
  "ex_sent =
     \<lparr>accounts = [ex_account\<lparr>balance := 10000\<rparr>],
      transactions =
        [\<lparr>referenceNumber = ''TXN20260115000001'', accountId = 1, tx_type = INSTAPAY,
          amount = - 60000, balanceAfter = 10000, relatedAccountId = None,
          relatedAccountNumber = Some ''3333333333'',
          description = Some ''Instapay to Rosa Lim at BDO Unibank''\<rparr>],
      instapayTransactions =
        [\<lparr>ip_referenceNumber = ''TXN20260115000001'', switchReferenceNumber = None,
          sourceAccountId = 1, sourceAccountNumber = ''0011234567'', bankName = ''BDO Unibank'',
          bankCode = ''BDO'', ip_accountNumber = ''3333333333'', accountName = ''Rosa Lim'',
          ip_amount = 60000, status = PENDING, statusMessage = None\<rparr>],
      transactionSequence = [''20260115'' \<mapsto> 1], sequenceStoreDown = False\<rparr>"

text \<open>A database with a second account, for transfers between the two.\<close>

definition ex_account2 :: account where
  "ex_account2 = \<lparr>acc_id = 2, customerId = 2, branchCode = ''002'', accountNumber = ''0027654321'',
     balance = 5000, acc_status = active\<rparr>"

definition ex_two :: db where
  "ex_two = ex_db\<lparr>accounts := [ex_account, ex_account2]\<rparr>"


text \<open>A ledger row of an earlier deposit, under a given reference number.\<close>

definition ex_row :: "string \<Rightarrow> transaction" where
  "ex_row reference =
     \<lparr>referenceNumber = reference, accountId = 1, tx_type = DEPOSIT, amount = 70000,
      balanceAfter = 70000, relatedAccountId = None, relatedAccountNumber = None,
      description = Some ''Manual Deposit''\<rparr>"

text \<open>The database \<open>ex_db\<close> with another balance on its account.\<close>

definition ex_holding :: "money \<Rightarrow> db" where
  "ex_holding b = ex_db\<lparr>accounts := [ex_account\<lparr>balance := b\<rparr>]\<rparr>"

text \<open>A FAILED callback for the transfer of \<open>ex_sent\<close>.\<close>

definition ex_failed :: "db \<Rightarrow> (exn + instapayTransaction option) \<times> db" where
  "ex_failed = updateInstapayTransactionStatus ex_today ''TXN20260115000001'' FAILED None
     (Some ''Beneficiary bank timeout'')"

text \<open>The database \<open>ex_sent\<close> once the transfer has been reported successful.\<close>

definition ex_settled :: db where
  "ex_settled = ex_sent\<lparr>instapayTransactions :=
     map (\<lambda>t. t\<lparr>status := SUCCESS\<rparr>) (instapayTransactions ex_sent)\<rparr>"
section \<open>Digit strings, dates and the reference generator\<close>

lemma digitVal_digit: "d < 10 \<Longrightarrow> digitVal (digit d) = d"
proof -
  assume "d < 10"
  then have "d \<in> {0,1,2,3,4,5,6,7,8,9}" by auto
  then show ?thesis by (auto simp: digit_def digitVal_def)
qed

lemma isDigit_digit: "d < 10 \<Longrightarrow> isDigit (digit d)"
proof -
  assume "d < 10"
  then have "d \<in> {0,1,2,3,4,5,6,7,8,9}" by auto
  then show ?thesis by (auto simp: digit_def isDigit_def)
qed

lemma parseDigits_snoc: "parseDigits (s @ [c]) = 10 * parseDigits s + digitVal c"
  by (simp add: parseDigits_def)

lemma parseDigits_toString: "parseDigits (toString n) = n"
proof (induction n rule: toString.induct)
  case (1 n)
  show ?case
  proof (cases "n < 10")
    case True
    then show ?thesis by (simp add: toString.simps [of n] parseDigits_def digitVal_digit)
  next
    case False
    then have "parseDigits (toString (n div 10)) = n div 10" using 1 by simp
    with False show ?thesis
      by (simp add: toString.simps [of n] parseDigits_snoc digitVal_digit)
  qed
qed

lemma parseDigits_zeros: "parseDigits (replicate k CHR ''0'' @ s) = parseDigits s"
  by (induction k) (simp_all add: parseDigits_def digitVal_def)

lemma parseDigits_padStart: "parseDigits (padStart k CHR ''0'' (toString n)) = n"
  by (simp add: padStart_def parseDigits_zeros parseDigits_toString)

lemma toString_digits: "list_all isDigit (toString n)"
proof (induction n rule: toString.induct)
  case (1 n)
  show ?case
  proof (cases "n < 10")
    case True
    then show ?thesis by (simp add: toString.simps [of n] isDigit_digit)
  next
    case False
    with 1 show ?thesis by (simp add: toString.simps [of n] isDigit_digit)
  qed
qed

lemma length_toString_le: "n < 10 ^ k \<Longrightarrow> 0 < k \<Longrightarrow> length (toString n) \<le> k"
proof (induction n arbitrary: k rule: toString.induct)
  case (1 n)
  show ?case
  proof (cases "n < 10")
    case True
    then show ?thesis using 1(3) by (simp add: toString.simps [of n])
  next
    case False
    obtain j where k: "k = Suc j" using 1(3) by (cases k) auto
    have "j \<noteq> 0" using 1(2) False k by (cases j) auto
    moreover have "n div 10 < 10 ^ j" using 1(2) k by (simp add: less_mult_imp_div_less mult.commute)
    ultimately have "length (toString (n div 10)) \<le> j" using 1(1) [OF False, of j] by simp
    then show ?thesis using False k by (simp add: toString.simps [of n])
  qed
qed

lemma length_toString_ge: "10 ^ k \<le> n \<Longrightarrow> k < length (toString n)"
proof (induction n arbitrary: k rule: toString.induct)
  case (1 n)
  show ?case
  proof (cases "n < 10")
    case True
    have "k = 0"
    proof (cases k)
      case (Suc j)
      have "(1::nat) \<le> 10 ^ j" by simp
      with 1(2) True Suc show ?thesis by simp
    qed simp
    then show ?thesis by (simp add: toString.simps [of n])
  next
    case False
    show ?thesis
    proof (cases k)
      case 0
      then show ?thesis by (simp add: toString.simps [of n])
    next
      case (Suc j)
      then have "10 ^ j \<le> n div 10" using 1(2) by (simp add: less_eq_div_iff_mult_less_eq mult.commute)
      then have "j < length (toString (n div 10))" using 1(1) [OF False] by simp
      then show ?thesis using False Suc by (simp add: toString.simps [of n])
    qed
  qed
qed

lemma length_padStart: "length (padStart k c s) = max k (length s)"
  by (simp add: padStart_def)


lemma toString_lt10: "n < 10 \<Longrightarrow> toString n = [digit n]"
  by (simp add: toString.simps [of n])

lemma toString_ge10: "10 \<le> n \<Longrightarrow> toString n = toString (n div 10) @ [digit (n mod 10)]"
  by (simp add: toString.simps [of n])

lemma replicate_numeral: "replicate (numeral k) c = c # replicate (pred_numeral k) c"
  by (simp add: numeral_eq_Suc)

lemma length_toString_pos: "0 < length (toString n)"
  by (cases "n < 10") (simp_all add: toString.simps [of n])

lemma length_padStart_exact: "n < 10 ^ k \<Longrightarrow> 0 < k \<Longrightarrow> length (padStart k c (toString n)) = k"
  using length_toString_le [of n k] by (simp add: padStart_def)

lemma padStart_digits: "list_all isDigit s \<Longrightarrow> list_all isDigit (padStart k CHR ''0'' s)"
proof -
  assume a: "list_all isDigit s"
  have z: "isDigit CHR ''0''" by (simp add: isDigit_def)
  show ?thesis using a z by (auto simp: padStart_def list_all_iff)
qed

lemma filter_digits: "list_all isDigit s \<Longrightarrow> filter (\<lambda>c. c \<noteq> CHR ''-'') s = s"
  by (induction s) (auto simp: isDigit_def)

lemma dateStr_of_valid:
  assumes "valid_date d"
  shows "dateStr_of d = padStart 4 CHR ''0'' (toString (year d)) @ padStart 2 CHR ''0'' (toString (month d))
           @ padStart 2 CHR ''0'' (toString (day d))"
proof -
  let ?y = "padStart 4 CHR ''0'' (toString (year d))"
  let ?m = "padStart 2 CHR ''0'' (toString (month d))"
  let ?d = "padStart 2 CHR ''0'' (toString (day d))"
  have ly: "length ?y = 4" using assms by (intro length_padStart_exact) (simp_all add: valid_date_def)
  have lm: "length ?m = 2" using assms by (intro length_padStart_exact) (simp_all add: valid_date_def)
  have ld: "length ?d = 2" using assms by (intro length_padStart_exact) (simp_all add: valid_date_def)
  have iso: "toISOString_date d = ?y @ ''-'' @ ?m @ ''-'' @ ?d"
    using assms by (simp add: toISOString_date_def valid_date_def)
  have "take 10 (toISOString_date d) = toISOString_date d"
    unfolding iso using ly lm ld by simp
  then have "dateStr_of d = filter (\<lambda>c. c \<noteq> CHR ''-'') (?y @ ''-'' @ ?m @ ''-'' @ ?d)"
    by (simp add: dateStr_of_def iso)
  also have "\<dots> = ?y @ ?m @ ?d"
    by (simp add: filter_digits padStart_digits toString_digits)
  finally show ?thesis .
qed

lemma dateStr_of_length: "valid_date d \<Longrightarrow> length (dateStr_of d) = 8"
  by (simp add: dateStr_of_valid length_padStart_exact valid_date_def)

lemma dateStr_of_digits: "valid_date d \<Longrightarrow> list_all isDigit (dateStr_of d)"
  by (simp add: dateStr_of_valid padStart_digits toString_digits)

lemma referenceOf_inj: "referenceOf d m = referenceOf d n \<Longrightarrow> m = n"
proof -
  assume "referenceOf d m = referenceOf d n"
  then have "padStart 6 CHR ''0'' (toString m) = padStart 6 CHR ''0'' (toString n)"
    by (simp add: referenceOf_def)
  then have "parseDigits (padStart 6 CHR ''0'' (toString m)) = parseDigits (padStart 6 CHR ''0'' (toString n))"
    by simp
  then show ?thesis by (simp add: parseDigits_padStart)
qed

lemma generateTransactionReference_up:
  "\<not> sequenceStoreDown s \<Longrightarrow>
   generateTransactionReference today s =
     (Inr (referenceOf (dateStr_of today) (lastIssued s today + 1)),
      s\<lparr>transactionSequence := (transactionSequence s)(dateStr_of today \<mapsto> lastIssued s today + 1)\<rparr>)"
  by (simp add: generateTransactionReference_def lastIssued_def Let_def split: option.split)

lemma generateTransactionReference_down:
  "sequenceStoreDown s \<Longrightarrow> generateTransactionReference today s = (Inl QueryRejected, s)"
  by (simp add: generateTransactionReference_def)

lemma generateReferences_closed:
  "\<not> sequenceStoreDown s \<Longrightarrow>
   fst (generateReferences today M s) =
     map (\<lambda>i. Inr (referenceOf (dateStr_of today) (lastIssued s today + 1 + i))) [0..<M]"
proof (induction M arbitrary: s)
  case 0
  then show ?case by simp
next
  case (Suc M)
  let ?s1 = "s\<lparr>transactionSequence := (transactionSequence s)(dateStr_of today \<mapsto> lastIssued s today + 1)\<rparr>"
  have up: "\<not> sequenceStoreDown ?s1" using Suc.prems by simp
  have li: "lastIssued ?s1 today = lastIssued s today + 1" by (simp add: lastIssued_def)
  have "fst (generateReferences today (Suc M) s) =
          Inr (referenceOf (dateStr_of today) (lastIssued s today + 1)) # fst (generateReferences today M ?s1)"
    using Suc.prems by (simp add: generateTransactionReference_up split: prod.split)
  also have "\<dots> = Inr (referenceOf (dateStr_of today) (lastIssued s today + 1)) #
       map (\<lambda>i. Inr (referenceOf (dateStr_of today) (lastIssued s today + 1 + Suc i))) [0..<M]"
    using Suc.IH [OF up] li by simp
  also have "\<dots> = map (\<lambda>i. Inr (referenceOf (dateStr_of today) (lastIssued s today + 1 + i))) [0..<Suc M]"
    by (simp only: upt_conv_Cons [of 0 "Suc M"] map_Suc_upt [symmetric]) (simp add: comp_def)
  finally show ?case .
qed


lemma ex_dateStr: "dateStr_of ex_today = ''20260115''"
  by (simp add: dateStr_of_def toISOString_date_def padStart_def replicate_numeral toString_lt10 toString_ge10 digit_def
      ex_today_def)

section \<open>Rounding to doubles\<close>

lemma powi_less_imp_less: "(2::rat) powi a < 2 powi b \<Longrightarrow> a < b"
proof (rule ccontr)
  assume lt: "(2::rat) powi a < 2 powi b" and "\<not> a < b"
  then have "b \<le> a" by simp
  then have "(2::rat) powi b \<le> 2 powi a" by (intro power_int_increasing) simp_all
  with lt show False by simp
qed

lemma quotient_of_abs:
  assumes "x \<noteq> 0" and "quotient_of \<bar>x\<bar> = (p, q)"
  shows "0 < p" "0 < q" "\<bar>x\<bar> = of_int p / of_int q"
proof -
  show q: "0 < q" using quotient_of_denom_pos [OF assms(2)] .
  show eq: "\<bar>x\<bar> = of_int p / of_int q" using quotient_of_div [OF assms(2)] .
  have "0 < \<bar>x\<bar>" using assms(1) by simp
  then have "0 < (of_int p :: rat) / of_int q" using eq by simp
  then have "0 < (of_int p :: rat)" using q by (simp add: zero_less_divide_iff)
  then show "0 < p" by simp
qed

lemma bitlen_powi_bounds:
  assumes "0 < p"
  shows "(2::rat) powi (bitlen p - 1) \<le> of_int p" "(of_int p :: rat) < 2 powi bitlen p"
proof -
  have b: "1 \<le> bitlen p" using assms by (simp add: bitlen_alt_def)
  from bitlen_bounds [OF assms] have lo: "2 ^ nat (bitlen p - 1) \<le> p" and hi: "p < 2 ^ nat (bitlen p)"
    by simp_all
  have "(2::rat) powi (bitlen p - 1) = of_int (2 ^ nat (bitlen p - 1))"
    using b by (simp add: power_int_def)
  also have "\<dots> \<le> of_int p" using lo by (simp only: of_int_le_iff)
  finally show "(2::rat) powi (bitlen p - 1) \<le> of_int p" .
  have "(of_int p :: rat) < of_int (2 ^ nat (bitlen p))" using hi by (simp only: of_int_less_iff)
  also have "\<dots> = 2 powi bitlen p" using b by (simp add: power_int_def)
  finally show "(of_int p :: rat) < 2 powi bitlen p" .
qed

lemma binade_bounds:
  assumes "x \<noteq> 0"
  shows "2 powi binade x \<le> \<bar>x\<bar>" "\<bar>x\<bar> < 2 powi (binade x + 1)"
proof -
  obtain p q where pq: "quotient_of \<bar>x\<bar> = (p, q)" by (cases "quotient_of \<bar>x\<bar>")
  from quotient_of_abs [OF assms pq] have p: "0 < p" and q: "0 < q"
    and x: "\<bar>x\<bar> = of_int p / of_int q" by simp_all
  let ?e = "bitlen p - bitlen q"
  have bin: "binade x = (if 2 powi ?e \<le> \<bar>x\<bar> then ?e else ?e - 1)"
    by (simp add: binade_def pq)
  note bp = bitlen_powi_bounds [OF p] and bq = bitlen_powi_bounds [OF q]
  have q0: "(0::rat) < of_int q" using q by simp
  have p0: "(0::rat) < of_int p" using p by simp
  have lower: "2 powi (?e - 1) \<le> \<bar>x\<bar>"
  proof -
    have "(2::rat) powi (?e - 1) = 2 powi ((bitlen p - 1) - bitlen q)"
      by (simp add: algebra_simps)
    also have "\<dots> = 2 powi (bitlen p - 1) / 2 powi bitlen q"
      by (rule power_int_diff) simp
    also have "\<dots> \<le> of_int p / of_int q"
      using bp(1) bq(2) q0 p0 by (intro frac_le) simp_all
    finally show ?thesis using x by simp
  qed
  have upper: "\<bar>x\<bar> < 2 powi (?e + 1)"
  proof -
    have pos: "(0::rat) < 2 powi (bitlen q - 1)" by simp
    have "(of_int p :: rat) / of_int q < 2 powi bitlen p / 2 powi (bitlen q - 1)"
      using bp(2) bq(1) q0 pos p0 by (intro frac_less) simp_all
    also have "\<dots> = 2 powi (bitlen p - (bitlen q - 1))"
      by (rule power_int_diff [symmetric]) simp
    also have "\<dots> = 2 powi (?e + 1)"
      by (simp add: algebra_simps)
    finally show ?thesis using x by simp
  qed
  show "2 powi binade x \<le> \<bar>x\<bar>" using lower by (simp add: bin)
  show "\<bar>x\<bar> < 2 powi (binade x + 1)"
  proof (cases "2 powi ?e \<le> \<bar>x\<bar>")
    case True
    then show ?thesis using upper by (simp add: bin)
  next
    case False
    then show ?thesis by (simp add: bin)
  qed
qed

lemma binade_unique:
  assumes "2 powi e \<le> \<bar>x\<bar>" and "\<bar>x\<bar> < 2 powi (e + 1)"
  shows "binade x = e"
proof -
  have "0 < \<bar>x\<bar>" using zero_less_power_int [of "2::rat" e] assms(1) by linarith
  then have x: "x \<noteq> 0" by simp
  from binade_bounds [OF x] assms
  have "(2::rat) powi binade x < 2 powi (e + 1)" and "(2::rat) powi e < 2 powi (binade x + 1)"
    by simp_all
  then have "binade x < e + 1" and "e < binade x + 1" by (auto dest: powi_less_imp_less)
  then show ?thesis by simp
qed

lemma roundTiesToEven_error: "\<bar>of_int (roundTiesToEven q) - q\<bar> \<le> 1 / 2"
proof -
  have "of_int \<lfloor>q\<rfloor> \<le> q" and "q < of_int \<lfloor>q\<rfloor> + 1" by linarith+
  then show ?thesis by (auto simp: roundTiesToEven_def Let_def)
qed

lemma fl_zero: "fl 0 = 0"
  by (simp add: fl_def roundTiesToEven_def)

lemma fl_error:
  assumes "\<bar>x\<bar> < 2 powi k" and "- 1021 \<le> k"
  shows "\<bar>fl x - x\<bar> \<le> 2 powi (k - 54)"
proof (cases "x = 0")
  case True
  then show ?thesis by (simp add: fl_zero)
next
  case False
  let ?u = "(2::rat) powi (max (binade x) (- 1022) - 52)"
  have u0: "0 < ?u" by simp
  from binade_bounds(1) [OF False] assms(1) have "(2::rat) powi binade x < 2 powi k" by simp
  then have "binade x < k" by (rule powi_less_imp_less)
  with assms(2) have "max (binade x) (- 1022) - 52 \<le> k - 53" by arith
  then have u: "?u \<le> 2 powi (k - 53)" by (rule power_int_increasing) simp
  have "fl x - x = (of_int (roundTiesToEven (x / ?u)) - x / ?u) * ?u"
    using u0 by (simp add: fl_def Let_def algebra_simps)
  then have "\<bar>fl x - x\<bar> = \<bar>of_int (roundTiesToEven (x / ?u)) - x / ?u\<bar> * ?u"
    using u0 by (simp add: abs_mult)
  also have "\<dots> \<le> 1 / 2 * ?u"
    using roundTiesToEven_error [of "x / ?u"] u0 by (intro mult_right_mono) simp_all
  also have "\<dots> \<le> 1 / 2 * 2 powi (k - 53)"
    using u by simp
  also have "\<dots> = 2 powi (k - 54)"
    using power_int_add [of "2::rat" "k - 54" 1] by simp
  finally show ?thesis .
qed

lemma toFixed2_near:
  assumes "\<bar>x * 100 - of_int c\<bar> < 1 / 2"
  shows "toFixed2 x = c"
proof -
  from assms have a: "x * 100 - of_int c < 1 / 2" "- (1 / 2) < x * 100 - of_int c"
    by linarith+
  show ?thesis
  proof (cases "x < 0")
    case True
    have "\<lfloor>- x * 100 + 1 / 2\<rfloor> = - c"
    proof (rule floor_unique)
      show "of_int (- c) \<le> - x * 100 + 1 / 2" using a by simp
      show "- x * 100 + 1 / 2 < of_int (- c) + 1" using a by simp
    qed
    with True show ?thesis by (simp add: toFixed2_def)
  next
    case False
    have "\<lfloor>x * 100 + 1 / 2\<rfloor> = c"
    proof (rule floor_unique)
      show "of_int c \<le> x * 100 + 1 / 2" using a by simp
      show "x * 100 + 1 / 2 < of_int c + 1" using a by simp
    qed
    with False show ?thesis by (simp add: toFixed2_def)
  qed
qed


lemma fl_error_44:
  assumes "\<bar>x\<bar> < 17592186044416"
  shows "\<bar>fl x - x\<bar> \<le> 1 / 1024"
proof -
  have "\<bar>x\<bar> < 2 powi 44" using assms by simp
  from fl_error [OF this] show ?thesis by simp
qed

lemma scaled_error:
  fixes z w :: rat
  assumes "\<bar>z - w\<bar> \<le> 3 / 1024"
  shows "\<bar>z * 100 - w * 100\<bar> < 1 / 2"
  using assms by linarith

lemma posted_exact:
  assumes "0 \<le> b" "0 \<le> a" "b + a \<le> 1000000000000000"
  shows "postedSum b a = b + a" and "a \<le> b \<Longrightarrow> postedDifference b a = b - a"
proof -
  define x y :: rat where "x = of_int b / 100" and "y = of_int a / 100"
  have "(of_int b :: rat) + of_int a \<le> 1000000000000000"
    using assms(3) by (metis of_int_add of_int_le_iff of_int_numeral)
  moreover have "(0::rat) \<le> of_int b" "(0::rat) \<le> of_int a" using assms(1,2) by simp_all
  ultimately have x0: "0 \<le> x" and y0: "0 \<le> y" and xy: "x + y \<le> 10000000000000"
    by (simp_all add: x_def y_def)
  have ex: "\<bar>fl x - x\<bar> \<le> 1 / 1024" using x0 y0 xy by (intro fl_error_44) simp
  have ey: "\<bar>fl y - y\<bar> \<le> 1 / 1024" using x0 y0 xy by (intro fl_error_44) simp
  show "postedSum b a = b + a"
  proof -
    have "\<bar>fl x + fl y\<bar> < 17592186044416" using ex ey x0 y0 xy by linarith
    then have "\<bar>fl (fl x + fl y) - (fl x + fl y)\<bar> \<le> 1 / 1024" by (rule fl_error_44)
    then have "\<bar>fl (fl x + fl y) - (x + y)\<bar> \<le> 3 / 1024" using ex ey by linarith
    then have "\<bar>fl (fl x + fl y) * 100 - (x + y) * 100\<bar> < 1 / 2" by (rule scaled_error)
    moreover have "(x + y) * 100 = of_int (b + a)" by (simp add: x_def y_def)
    ultimately have "toFixed2 (fl (fl x + fl y)) = b + a" by (intro toFixed2_near) simp
    then show ?thesis by (simp add: postedSum_def parseFloat_def x_def y_def)
  qed
  show "postedDifference b a = b - a" if "a \<le> b"
  proof -
    have "(of_int a :: rat) \<le> of_int b" using that by simp
    then have yx: "y \<le> x" by (simp add: x_def y_def)
    have "\<bar>fl x - fl y\<bar> < 17592186044416" using ex ey x0 y0 xy yx by linarith
    then have "\<bar>fl (fl x - fl y) - (fl x - fl y)\<bar> \<le> 1 / 1024" by (rule fl_error_44)
    then have "\<bar>fl (fl x - fl y) - (x - y)\<bar> \<le> 3 / 1024" using ex ey by linarith
    then have "\<bar>fl (fl x - fl y) * 100 - (x - y) * 100\<bar> < 1 / 2" by (rule scaled_error)
    moreover have "(x - y) * 100 = of_int (b - a)" by (simp add: x_def y_def)
    ultimately have "toFixed2 (fl (fl x - fl y)) = b - a" by (intro toFixed2_near) simp
    then show ?thesis by (simp add: postedDifference_def parseFloat_def x_def y_def)
  qed
qed

text \<open>Rounding a given number, once its binade is known.\<close>

lemma floor_rat_numeral: "\<lfloor>(numeral a :: rat) / numeral b\<rfloor> = numeral a div numeral b"
  using floor_divide_of_int_eq [of "numeral a" "numeral b", where ?'a = rat] by simp

lemma fl_eq:
  assumes "2 powi e \<le> \<bar>x\<bar>" "\<bar>x\<bar> < 2 powi (e + 1)" "- 1022 \<le> e"
  shows "fl x = of_int (roundTiesToEven (x / 2 powi (e - 52))) * 2 powi (e - 52)"
  using binade_unique [OF assms(1,2)] assms(3) by (simp add: fl_def Let_def max_def)

lemma parse_big: "parseFloat 9007199254740993 = 1441151880758559 / 16"
proof -
  have "fl (9007199254740993 / 100) =
      of_int (roundTiesToEven (9007199254740993 / 100 / 2 powi (46 - 52))) * 2 powi (46 - 52)"
    by (rule fl_eq) simp_all
  also have "\<dots> = 1441151880758559 / 16"
    by (simp add: roundTiesToEven_def Let_def floor_rat_numeral)
  finally show ?thesis by (simp add: parseFloat_def)
qed

lemma parse_one: "parseFloat 100 = 1"
proof -
  have "fl 1 = of_int (roundTiesToEven (1 / 2 powi (0 - 52))) * 2 powi (0 - 52)"
    by (rule fl_eq) simp_all
  also have "\<dots> = 1"
    by (simp add: roundTiesToEven_def Let_def floor_rat_numeral)
  finally show ?thesis by (simp add: parseFloat_def)
qed

lemma sum_big: "fl (1441151880758575 / 16) = 1441151880758575 / 16"
proof -
  have "fl (1441151880758575 / 16) =
      of_int (roundTiesToEven (1441151880758575 / 16 / 2 powi (46 - 52))) * 2 powi (46 - 52)"
    by (rule fl_eq) simp_all
  also have "\<dots> = 1441151880758575 / 16"
    by (simp add: roundTiesToEven_def Let_def floor_rat_numeral)
  finally show ?thesis .
qed

text \<open>
  Within a quadrillion centavos the doubles also keep the order of amounts, and
  \<open>toFixed(2)\<close> gives an amount back, with either sign: the comparisons and the ledger
  amounts of the posting functions are those of the exact centavos.
\<close>

lemma parseFloat_error:
  assumes "\<bar>c\<bar> \<le> 1000000000000000"
  shows "\<bar>parseFloat c - of_int c / 100\<bar> \<le> 1 / 1024"
proof -
  have "\<bar>of_int c :: rat\<bar> \<le> 1000000000000000"
    using assms by (metis of_int_abs of_int_le_iff of_int_numeral)
  then have "\<bar>of_int c / 100 :: rat\<bar> < 17592186044416" by simp
  then show ?thesis unfolding parseFloat_def by (rule fl_error_44)
qed

lemma parseFloat_less_iff:
  assumes "\<bar>b\<bar> \<le> 1000000000000000" and "\<bar>a\<bar> \<le> 1000000000000000"
  shows "parseFloat b < parseFloat a \<longleftrightarrow> b < a"
proof -
  have gap: "parseFloat v < parseFloat w"
    if "v < w" "\<bar>v\<bar> \<le> 1000000000000000" "\<bar>w\<bar> \<le> 1000000000000000" for v w
  proof -
    have "v + 1 \<le> w" using that(1) by simp
    then have "(of_int v :: rat) + 1 \<le> of_int w" by (metis of_int_1 of_int_add of_int_le_iff)
    then have "(of_int v :: rat) / 100 + 1 / 100 \<le> of_int w / 100" by simp
    with parseFloat_error [OF that(2)] parseFloat_error [OF that(3)] show ?thesis by linarith
  qed
  show ?thesis
  proof
    assume lt: "parseFloat b < parseFloat a"
    show "b < a"
    proof (rule ccontr)
      assume "\<not> b < a"
      then have "a < b \<or> a = b" by auto
      then show False using gap [of a b] assms lt by auto
    qed
  next
    assume "b < a"
    then show "parseFloat b < parseFloat a" using assms by (rule gap)
  qed
qed

lemma toFixed2_parseFloat:
  assumes "\<bar>a\<bar> \<le> 1000000000000000"
  shows "toFixed2 (parseFloat a) = a" and "toFixed2 (- parseFloat a) = - a"
proof -
  note e = parseFloat_error [OF assms]
  have "\<bar>parseFloat a * 100 - of_int a\<bar> < 1 / 2" using e by linarith
  then show "toFixed2 (parseFloat a) = a" by (rule toFixed2_near)
  have "\<bar>- parseFloat a * 100 - of_int (- a)\<bar> < 1 / 2"
    unfolding of_int_minus using e by linarith
  then show "toFixed2 (- parseFloat a) = - a" by (rule toFixed2_near)
qed

lemma parseFloat_zero: "parseFloat 0 = 0"
  by (simp add: parseFloat_def fl_zero)

lemma parseFloat_limit: "parseFloat 5000000 = 50000"
proof -
  have "fl 50000 = of_int (roundTiesToEven (50000 / 2 powi (15 - 52))) * 2 powi (15 - 52)"
    by (rule fl_eq) simp_all
  also have "\<dots> = 50000"
    by (simp add: roundTiesToEven_def Let_def)
  finally show ?thesis by (simp add: parseFloat_def)
qed



text \<open>
  The same for every pair of amounts within a quadrillion centavos, whatever their signs:
  the sum of the two doubles stays below \<open>2 ^ 45\<close>, where its rounding is off by at most
  \<open>1 / 512\<close>.
\<close>

lemma of_int_abs_bound:
  assumes "\<bar>c\<bar> \<le> 1000000000000000"
  shows "\<bar>of_int c / 100 :: rat\<bar> \<le> 10000000000000"
proof -
  have "\<bar>of_int c :: rat\<bar> \<le> 1000000000000000"
    using assms by (metis of_int_abs of_int_le_iff of_int_numeral)
  then show ?thesis by simp
qed

lemma fl_error_45:
  assumes "\<bar>x\<bar> < 35184372088832"
  shows "\<bar>fl x - x\<bar> \<le> 1 / 512"
proof -
  have "\<bar>x\<bar> < 2 powi 45" using assms by simp
  from fl_error [OF this] show ?thesis by simp
qed

lemma scaled_error_256:
  fixes z w :: rat
  assumes "\<bar>z - w\<bar> \<le> 1 / 256"
  shows "\<bar>z * 100 - w * 100\<bar> < 1 / 2"
  using assms by linarith

lemma post_add:
  assumes "\<bar>b\<bar> \<le> 1000000000000000" and "\<bar>a\<bar> \<le> 1000000000000000"
  shows "toFixed2 (fl (parseFloat b + parseFloat a)) = b + a"
proof -
  define x y :: rat where "x = of_int b / 100" and "y = of_int a / 100"
  have bx: "\<bar>x\<bar> \<le> 10000000000000" and bY: "\<bar>y\<bar> \<le> 10000000000000"
    using of_int_abs_bound assms by (simp_all add: x_def y_def)
  have ex: "\<bar>parseFloat b - x\<bar> \<le> 1 / 1024" and ey: "\<bar>parseFloat a - y\<bar> \<le> 1 / 1024"
    using parseFloat_error assms by (simp_all add: x_def y_def)
  have "\<bar>parseFloat b + parseFloat a\<bar> < 35184372088832" using ex ey bx bY by linarith
  then have "\<bar>fl (parseFloat b + parseFloat a) - (parseFloat b + parseFloat a)\<bar> \<le> 1 / 512"
    by (rule fl_error_45)
  then have "\<bar>fl (parseFloat b + parseFloat a) - (x + y)\<bar> \<le> 1 / 256" using ex ey by linarith
  then have "\<bar>fl (parseFloat b + parseFloat a) * 100 - (x + y) * 100\<bar> < 1 / 2"
    by (rule scaled_error_256)
  moreover have "(x + y) * 100 = of_int (b + a)" by (simp add: x_def y_def)
  ultimately show ?thesis by (intro toFixed2_near) simp
qed

lemma post_sub:
  assumes "\<bar>b\<bar> \<le> 1000000000000000" and "\<bar>a\<bar> \<le> 1000000000000000"
  shows "toFixed2 (fl (parseFloat b - parseFloat a)) = b - a"
proof -
  define x y :: rat where "x = of_int b / 100" and "y = of_int a / 100"
  have bx: "\<bar>x\<bar> \<le> 10000000000000" and bY: "\<bar>y\<bar> \<le> 10000000000000"
    using of_int_abs_bound assms by (simp_all add: x_def y_def)
  have ex: "\<bar>parseFloat b - x\<bar> \<le> 1 / 1024" and ey: "\<bar>parseFloat a - y\<bar> \<le> 1 / 1024"
    using parseFloat_error assms by (simp_all add: x_def y_def)
  have "\<bar>parseFloat b - parseFloat a\<bar> < 35184372088832" using ex ey bx bY by linarith
  then have "\<bar>fl (parseFloat b - parseFloat a) - (parseFloat b - parseFloat a)\<bar> \<le> 1 / 512"
    by (rule fl_error_45)
  then have "\<bar>fl (parseFloat b - parseFloat a) - (x - y)\<bar> \<le> 1 / 256" using ex ey by linarith
  then have "\<bar>fl (parseFloat b - parseFloat a) * 100 - (x - y) * 100\<bar> < 1 / 2"
    by (rule scaled_error_256)
  moreover have "(x - y) * 100 = of_int (b - a)" by (simp add: x_def y_def)
  ultimately show ?thesis by (intro toFixed2_near) simp
qed

text \<open>Comparisons of parsed amounts with zero and with the ceiling of 50,000 pesos.\<close>

lemma parseFloat_pos_iff:
  assumes "\<bar>a\<bar> \<le> 1000000000000000"
  shows "0 < parseFloat a \<longleftrightarrow> 0 < a"
  using parseFloat_less_iff [of 0 a] assms by (simp add: parseFloat_zero)

lemma parseFloat_le_iff:
  assumes "\<bar>b\<bar> \<le> 1000000000000000" and "\<bar>a\<bar> \<le> 1000000000000000"
  shows "parseFloat b \<le> parseFloat a \<longleftrightarrow> b \<le> a"
  using parseFloat_less_iff [OF assms(2,1)] by (simp add: not_less [symmetric])

lemma parseFloat_nonpos_iff:
  assumes "\<bar>a\<bar> \<le> 1000000000000000"
  shows "parseFloat a \<le> 0 \<longleftrightarrow> a \<le> 0"
  using parseFloat_le_iff [of a 0] assms by (simp add: parseFloat_zero)

lemma parseFloat_eq_zero_iff:
  assumes "\<bar>a\<bar> \<le> 1000000000000000"
  shows "parseFloat a = 0 \<longleftrightarrow> a = 0"
proof -
  have "parseFloat a \<le> 0 \<longleftrightarrow> a \<le> 0" "0 \<le> parseFloat a \<longleftrightarrow> 0 \<le> a"
    using parseFloat_le_iff [of a 0] parseFloat_le_iff [of 0 a] assms
    by (simp_all add: parseFloat_zero)
  then show ?thesis by (metis order_antisym order_refl)
qed

lemma parseFloat_over_limit_iff:
  assumes "\<bar>a\<bar> \<le> 1000000000000000"
  shows "50000 < parseFloat a \<longleftrightarrow> 5000000 < a"
  using parseFloat_less_iff [of 5000000 a] assms by (simp add: parseFloat_limit)

text \<open>
  Beyond a quadrillion centavos a double is still within one part in \<open>2 ^ 53\<close> of the
  number it rounds, so an amount out there is told apart from every amount within.
\<close>

lemma fl_relative_error:
  assumes "1 \<le> \<bar>x\<bar>"
  shows "\<bar>fl x - x\<bar> \<le> \<bar>x\<bar> / 9007199254740992"
proof -
  have x0: "x \<noteq> 0" using assms by auto
  note b = binade_bounds [OF x0]
  have "(2::rat) powi 0 < 2 powi (binade x + 1)" using assms b(2) by simp
  then have "0 < binade x + 1" by (rule powi_less_imp_less)
  then have "- 1021 \<le> binade x + 1" by simp
  from fl_error [OF b(2) this] have "\<bar>fl x - x\<bar> \<le> 2 powi (binade x + 1 - 54)" .
  also have "(2::rat) powi (binade x + 1 - 54) = 2 powi binade x * 2 powi (- 53)"
    using power_int_add [of "2::rat" "binade x" "- 53"] by simp
  also have "\<dots> = 2 powi binade x / 9007199254740992" by (simp add: power_int_minus field_simps)
  also have "\<dots> \<le> \<bar>x\<bar> / 9007199254740992" using b(1) by (simp add: divide_right_mono)
  finally show ?thesis .
qed

lemma relative_lower:
  fixes f x :: rat
  assumes "\<bar>f - x\<bar> \<le> \<bar>x\<bar> / 9007199254740992" and "10000000000000 + 1 / 100 \<le> x"
  shows "10000000000000 + 1 / 1024 < f"
proof -
  define d where "d = x / 9007199254740992"
  have d: "d * 9007199254740992 = x" by (simp add: d_def)
  have "\<bar>x\<bar> = x" using assms(2) by simp
  then have "\<bar>f - x\<bar> \<le> d" using assms(1) by (simp add: d_def)
  with d assms(2) show ?thesis by linarith
qed

lemma relative_upper:
  fixes f x :: rat
  assumes "\<bar>f - x\<bar> \<le> \<bar>x\<bar> / 9007199254740992" and "x \<le> - (10000000000000 + 1 / 100)"
  shows "f < - (10000000000000 + 1 / 1024)"
proof -
  define d where "d = - x / 9007199254740992"
  have d: "d * 9007199254740992 = - x" by (simp add: d_def)
  have "\<bar>x\<bar> = - x" using assms(2) by simp
  then have "\<bar>f - x\<bar> \<le> d" using assms(1) by (simp add: d_def)
  with d assms(2) show ?thesis by linarith
qed

lemma parseFloat_beyond:
  "1000000000000000 < A \<Longrightarrow> 10000000000000 + 1 / 1024 < parseFloat A"
  "A < - 1000000000000000 \<Longrightarrow> parseFloat A < - (10000000000000 + 1 / 1024)"
proof -
  define x :: rat where "x = of_int A / 100"
  show "10000000000000 + 1 / 1024 < parseFloat A" if "1000000000000000 < A"
  proof -
    have "1000000000000001 \<le> A" using that by simp
    then have "(of_int 1000000000000001 :: rat) \<le> of_int A" by (simp only: of_int_le_iff)
    then have x: "10000000000000 + 1 / 100 \<le> x" by (simp add: x_def)
    then have "1 \<le> \<bar>x\<bar>" by simp
    from relative_lower [OF fl_relative_error [OF this] x]
    show ?thesis by (simp add: parseFloat_def x_def)
  qed
  show "parseFloat A < - (10000000000000 + 1 / 1024)" if "A < - 1000000000000000"
  proof -
    have "A \<le> - 1000000000000001" using that by simp
    then have "(of_int A :: rat) \<le> of_int (- 1000000000000001)" by (simp only: of_int_le_iff)
    then have x: "x \<le> - (10000000000000 + 1 / 100)" by (simp add: x_def)
    then have "1 \<le> \<bar>x\<bar>" by simp
    from relative_upper [OF fl_relative_error [OF this] x]
    show ?thesis by (simp add: parseFloat_def x_def)
  qed
qed

lemma parseFloat_bound:
  assumes "\<bar>b\<bar> \<le> 1000000000000000"
  shows "\<bar>parseFloat b\<bar> \<le> 10000000000000 + 1 / 1024"
  using parseFloat_error [OF assms] of_int_abs_bound [OF assms] by linarith

lemma parseFloat_less_iff_left:
  assumes "\<bar>b\<bar> \<le> 1000000000000000"
  shows "parseFloat b < parseFloat a \<longleftrightarrow> b < a"
proof -
  consider "\<bar>a\<bar> \<le> 1000000000000000" | "1000000000000000 < a" | "a < - 1000000000000000"
    by linarith
  then show ?thesis
  proof cases
    case 1
    then show ?thesis using parseFloat_less_iff [OF assms] by simp
  next
    case 2
    then show ?thesis using parseFloat_beyond(1) [OF 2] parseFloat_bound [OF assms] assms by linarith
  next
    case 3
    then show ?thesis using parseFloat_beyond(2) [OF 3] parseFloat_bound [OF assms] assms by linarith
  qed
qed

lemma parseFloat_pos_iff_all: "0 < parseFloat a \<longleftrightarrow> 0 < a"
  using parseFloat_less_iff_left [of 0 a] by (simp add: parseFloat_zero)

text \<open>An amount string of whole centavos is parsed and stored like a column value.\<close>

lemma parseAmount_of_int: "parseAmount (of_int c) = parseFloat c"
  by (simp add: parseAmount_def parseFloat_def)

lemma parseAmount_numeral: "parseAmount (numeral n) = parseFloat (numeral n)"
  using parseAmount_of_int [of "numeral n"] by simp

lemma storeDecimal_of_int: "storeDecimal (of_int c) = c" "storeDecimal (- of_int c) = - c"
proof -
  have h: "\<lfloor>of_int k + (1 / 2 :: rat)\<rfloor> = k" for k by (rule floor_unique) simp_all
  show "storeDecimal (of_int c) = c"
    using h [of c] h [of "- c"] by (simp add: storeDecimal_def)
  show "storeDecimal (- of_int c) = - c"
    using h [of c] h [of "- c"] by (simp add: storeDecimal_def)
qed

lemma storeDecimal_numeral:
  "storeDecimal (numeral n) = numeral n" "storeDecimal (- numeral n) = - numeral n"
  using storeDecimal_of_int [of "numeral n"] by simp_all

lemma parseAmount_one: "parseAmount 1 = parseFloat 1"
  using parseAmount_of_int [of 1] by simp

lemma storeDecimal_one: "storeDecimal 1 = 1" "storeDecimal (- 1) = - 1"
  using storeDecimal_of_int [of 1] by simp_all

text \<open>The rules that evaluate a posting of whole centavos within a quadrillion.\<close>

lemmas float_eval =
  parseAmount_numeral parseAmount_one storeDecimal_numeral storeDecimal_one post_add post_sub parseFloat_less_iff parseFloat_le_iff
  parseFloat_pos_iff parseFloat_nonpos_iff parseFloat_eq_zero_iff parseFloat_over_limit_iff
  toFixed2_parseFloat
section \<open>Reading and writing the tables\<close>

lemma find_map_same:
  "(\<And>x. P (f x) = P x) \<Longrightarrow> find P (map f xs) = map_option f (find P xs)"
  by (induction xs) simp_all

lemma getAccountById_updateAccountBalance:
  "getAccountById (updateAccountBalance i b s) j =
     map_option (\<lambda>a. if acc_id a = i then a\<lparr>balance := b\<rparr> else a) (getAccountById s j)"
  unfolding getAccountById_def updateAccountBalance_def
  by (simp add: find_map_same)

lemma getAccountByNumber_updateAccountBalance:
  "getAccountByNumber (updateAccountBalance i b s) n =
     map_option (\<lambda>a. if acc_id a = i then a\<lparr>balance := b\<rparr> else a) (getAccountByNumber s n)"
  unfolding getAccountByNumber_def updateAccountBalance_def
  by (simp add: find_map_same)

lemma getAccountById_acc_id: "getAccountById s i = Some a \<Longrightarrow> acc_id a = i"
  unfolding getAccountById_def by (induction "accounts s" arbitrary: s) (auto simp: find_Some_iff)

lemma find_Some_holds: "find P xs = Some x \<Longrightarrow> P x \<and> x \<in> set xs"
  by (induction xs) (auto split: if_splits)

lemma updateAccountBalance_other [simp]:
  "transactions (updateAccountBalance i b s) = transactions s"
  "instapayTransactions (updateAccountBalance i b s) = instapayTransactions s"
  "transactionSequence (updateAccountBalance i b s) = transactionSequence s"
  "sequenceStoreDown (updateAccountBalance i b s) = sequenceStoreDown s"
  by (simp_all add: updateAccountBalance_def)

lemma find_setStatus:
  "find (\<lambda>t. ip_referenceNumber t = reference) ts = Some t \<Longrightarrow>
   find (\<lambda>t. ip_referenceNumber t = reference) (setStatus reference st switchRef message e ts) =
     Some (t\<lparr>status := st,
            switchReferenceNumber := orElseOpt switchRef (switchReferenceNumber e),
            statusMessage := orElseOpt message (statusMessage e)\<rparr>)"
  by (induction ts) (auto simp: setStatus_def split: if_splits)

lemma find_setStatus_None:
  "find (\<lambda>t. ip_referenceNumber t = reference) ts = None \<Longrightarrow>
   find (\<lambda>t. ip_referenceNumber t = reference) (setStatus reference st switchRef message e ts) = None"
  by (induction ts) (auto simp: setStatus_def split: if_splits)

lemma callback_not_found:
  "getInstapayTransactionByReference s reference = None \<Longrightarrow>
   updateInstapayTransactionStatus today reference st switchRef message s =
     (Inl (Error ''Instapay transaction not found''), s)"
  by (simp add: updateInstapayTransactionStatus_def)

lemma callback_no_reversal:
  assumes "getInstapayTransactionByReference s reference = Some t"
      and "\<not> (st = FAILED \<and> status t = PENDING)"
  shows "snd (updateInstapayTransactionStatus today reference st switchRef message s) =
           s\<lparr>instapayTransactions := setStatus reference st switchRef message t (instapayTransactions s)\<rparr>"
  using assms by (auto simp: updateInstapayTransactionStatus_def setStatus_def Let_def)


text \<open>
  The reversal whose reference number cannot be drawn, or is in the ledger already: the
  refund is written, the callback throws, and the record stays as it was.
\<close>

lemma callback_reversal_rejected:
  assumes "getInstapayTransactionByReference s reference = Some t"
      and "st = FAILED" "status t = PENDING"
      and "getAccountById s (sourceAccountId t) = Some a"
      and "sequenceStoreDown s"
  shows "updateInstapayTransactionStatus today reference st switchRef message s =
          (Inl QueryRejected,
           updateAccountBalance (sourceAccountId t)
             (toFixed2 (fl (parseFloat (balance a) + parseFloat (ip_amount t)))) s)"
  using assms
  by (simp add: updateInstapayTransactionStatus_def Let_def generateTransactionReference_down)

lemma callback_reversal_no_account:
  assumes "getInstapayTransactionByReference s reference = Some t"
      and "st = FAILED" "status t = PENDING"
      and "getAccountById s (sourceAccountId t) = None"
  shows "snd (updateInstapayTransactionStatus today reference st switchRef message s) =
           s\<lparr>instapayTransactions := setStatus reference st switchRef message t (instapayTransactions s)\<rparr>"
  using assms by (simp add: updateInstapayTransactionStatus_def setStatus_def Let_def)

section \<open>Evaluation on the concrete database\<close>

lemmas ex_eval =
  generateTransactionReference_up lastIssued_def referenceOf_def padStart_def replicate_numeral
  toString_lt10 toString_ge10 digit_def getAccountById_def getAccountByNumber_def
  updateAccountBalance_def createTransaction_def getInstapayTransactionByReference_def
  ex_dateStr ex_db_def ex_account_def ex_input_def ex_sent_def orElse_def orElseOpt_def Let_def
  insertTransaction_def insertInstapayTransaction_def ex_row_def ex_holding_def ex_failed_def ex_settled_def
  float_eval

lemma setStatus_frame:
  "length (setStatus reference st switchRef message e ts) = length ts
   \<and> (\<forall>i<length ts.
        (setStatus reference st switchRef message e ts ! i)
          \<lparr>status := status (ts ! i), switchReferenceNumber := switchReferenceNumber (ts ! i),
           statusMessage := statusMessage (ts ! i)\<rparr> = ts ! i
        \<and> (ip_referenceNumber (ts ! i) \<noteq> reference \<longrightarrow>
             setStatus reference st switchRef message e ts ! i = ts ! i)
        \<and> (ip_referenceNumber (ts ! i) = reference \<longrightarrow>
             status (setStatus reference st switchRef message e ts ! i) = st))"
  by (simp add: setStatus_def)


section \<open>Doubles where whole centavos end\<close>

text \<open>
  The values the server computes on balances beyond the doubles that tell centavos apart,
  and on amounts that are not whole centavos.
\<close>

lemma parse_centavo: "parseFloat 1 = 5764607523034235 / 576460752303423488"
proof -
  have "fl (1 / 100) =
      of_int (roundTiesToEven ((1 / 100) / 2 powi ((- 7) - 52))) * 2 powi ((- 7) - 52)"
    by (rule fl_eq) simp_all
  also have "\<dots> = 5764607523034235 / 576460752303423488"
    by (simp add: roundTiesToEven_def Let_def floor_rat_numeral)
  finally show ?thesis by (simp add: parseFloat_def)
qed

lemma parse_700: "parseFloat 70000 = 700"
proof -
  have "fl (700) =
      of_int (roundTiesToEven ((700) / 2 powi (9 - 52))) * 2 powi (9 - 52)"
    by (rule fl_eq) simp_all
  also have "\<dots> = 700"
    by (simp add: roundTiesToEven_def Let_def floor_rat_numeral)
  finally show ?thesis by (simp add: parseFloat_def)
qed

lemma parse_50: "parseFloat 5000 = 50"
proof -
  have "fl (50) =
      of_int (roundTiesToEven ((50) / 2 powi (5 - 52))) * 2 powi (5 - 52)"
    by (rule fl_eq) simp_all
  also have "\<dots> = 50"
    by (simp add: roundTiesToEven_def Let_def floor_rat_numeral)
  finally show ?thesis by (simp add: parseFloat_def)
qed

lemma parse_half: "parseAmount (1 / 2) = 5764607523034235 / 1152921504606846976"
proof -
  have "fl (1 / 200) =
      of_int (roundTiesToEven ((1 / 200) / 2 powi ((- 8) - 52))) * 2 powi ((- 8) - 52)"
    by (rule fl_eq) simp_all
  also have "\<dots> = 5764607523034235 / 1152921504606846976"
    by (simp add: roundTiesToEven_def Let_def floor_rat_numeral)
  finally show ?thesis by (simp add: parseAmount_def)
qed

lemma parse_big_94: "parseFloat 9007199254740994 = 1441151880758559 / 16"
proof -
  have "fl (9007199254740994 / 100) =
      of_int (roundTiesToEven ((9007199254740994 / 100) / 2 powi (46 - 52))) * 2 powi (46 - 52)"
    by (rule fl_eq) simp_all
  also have "\<dots> = 1441151880758559 / 16"
    by (simp add: roundTiesToEven_def Let_def floor_rat_numeral)
  finally show ?thesis by (simp add: parseFloat_def)
qed

lemma parse_big_06: "parseFloat 9007199254740906 = 1441151880758545 / 16"
proof -
  have "fl (9007199254740906 / 100) =
      of_int (roundTiesToEven ((9007199254740906 / 100) / 2 powi (46 - 52))) * 2 powi (46 - 52)"
    by (rule fl_eq) simp_all
  also have "\<dots> = 1441151880758545 / 16"
    by (simp add: roundTiesToEven_def Let_def floor_rat_numeral)
  finally show ?thesis by (simp add: parseFloat_def)
qed

lemma parse_big_07: "parseFloat 9007199254740907 = 1441151880758545 / 16"
proof -
  have "fl (9007199254740907 / 100) =
      of_int (roundTiesToEven ((9007199254740907 / 100) / 2 powi (46 - 52))) * 2 powi (46 - 52)"
    by (rule fl_eq) simp_all
  also have "\<dots> = 1441151880758545 / 16"
    by (simp add: roundTiesToEven_def Let_def floor_rat_numeral)
  finally show ?thesis by (simp add: parseFloat_def)
qed

lemma parse_tiny: "parseAmount (70000000000000001 / 1000000000000) = 700"
proof -
  have "fl (70000000000000001 / 100000000000000) =
      of_int (roundTiesToEven ((70000000000000001 / 100000000000000) / 2 powi (9 - 52))) * 2 powi (9 - 52)"
    by (rule fl_eq) simp_all
  also have "\<dots> = 700"
    by (simp add: roundTiesToEven_def Let_def floor_rat_numeral)
  finally show ?thesis by (simp add: parseAmount_def)
qed

lemma fl_big_less_centavo: "fl (51922968585348280608760605567877 / 576460752303423488) = 5764607523034235 / 64"
proof -
  have "fl (51922968585348280608760605567877 / 576460752303423488) =
      of_int (roundTiesToEven ((51922968585348280608760605567877 / 576460752303423488) / 2 powi (46 - 52))) * 2 powi (46 - 52)"
    by (rule fl_eq) simp_all
  also have "\<dots> = 5764607523034235 / 64"
    by (simp add: roundTiesToEven_def Let_def floor_rat_numeral)
  finally show ?thesis .
qed

lemma fl_700_less_half: "fl (807039288617269848965 / 1152921504606846976) = 6157221135080489 / 8796093022208"
proof -
  have "fl (807039288617269848965 / 1152921504606846976) =
      of_int (roundTiesToEven ((807039288617269848965 / 1152921504606846976) / 2 powi (9 - 52))) * 2 powi (9 - 52)"
    by (rule fl_eq) simp_all
  also have "\<dots> = 6157221135080489 / 8796093022208"
    by (simp add: roundTiesToEven_def Let_def floor_rat_numeral)
  finally show ?thesis .
qed

lemma fl_big_plus_centavo: "fl (51922968585347787734817386140795 / 576460752303423488) = 5764607523034181 / 64"
proof -
  have "fl (51922968585347787734817386140795 / 576460752303423488) =
      of_int (roundTiesToEven ((51922968585347787734817386140795 / 576460752303423488) / 2 powi (46 - 52))) * 2 powi (46 - 52)"
    by (rule fl_eq) simp_all
  also have "\<dots> = 5764607523034181 / 64"
    by (simp add: roundTiesToEven_def Let_def floor_rat_numeral)
  finally show ?thesis .
qed

lemma fl_50_plus_half: "fl (57651839837865383035 / 1152921504606846976) = 7037578105208177 / 140737488355328"
proof -
  have "fl (57651839837865383035 / 1152921504606846976) =
      of_int (roundTiesToEven ((57651839837865383035 / 1152921504606846976) / 2 powi (5 - 52))) * 2 powi (5 - 52)"
    by (rule fl_eq) simp_all
  also have "\<dots> = 7037578105208177 / 140737488355328"
    by (simp add: roundTiesToEven_def Let_def floor_rat_numeral)
  finally show ?thesis .
qed

lemma floor_one_half: "\<lfloor>1 / 2 :: rat\<rfloor> = 0"
  by (rule floor_unique) simp_all

text \<open>
  An interbank transfer of 0.01 from the balance 90,071,992,547,409.94, which the server
  itself can write: the double of the balance is 90,071,992,547,409.9375 and the new
  balance is printed as 90,071,992,547,409.92.
\<close>

lemma beyond_send:
  "\<not> parseFloat 9007199254740994 < parseFloat 1"
  "toFixed2 (fl (parseFloat 9007199254740994 - parseFloat 1)) = 9007199254740992"
  by (simp_all add: parse_big_94 parse_centavo fl_big_less_centavo toFixed2_def floor_rat_numeral)

text \<open>
  The balance 90,071,992,547,409.06 and the amount 90,071,992,547,409.07 are the same
  double; 0.01 added to that balance prints as 90,071,992,547,409.08.
\<close>

lemma beyond_withdraw:
  "0 < parseFloat 9007199254740907"
  "\<not> parseFloat 9007199254740906 < parseFloat 9007199254740907"
  "toFixed2 (fl (parseFloat 9007199254740906 - parseFloat 9007199254740907)) = 0"
  by (simp_all add: parse_big_06 parse_big_07 fl_zero toFixed2_def floor_one_half)

lemma beyond_credit:
  "toFixed2 (fl (parseFloat 9007199254740906 + parseFloat 1)) = 9007199254740908"
  by (simp add: parse_big_06 parse_centavo fl_big_plus_centavo toFixed2_def floor_rat_numeral)

text \<open>
  The amount string \<open>''0.005''\<close>, half a centavo: positive as a double, it leaves 700.00 at
  700.00 when subtracted and makes 50.01 of 50.00 when added, and it is written as 0.01.
\<close>

lemma half_eval:
  "0 < parseAmount (1 / 2)"
  "\<not> parseAmount (1 / 2) \<le> 0"
  "\<not> 50000 < parseAmount (1 / 2)"
  "\<not> parseFloat 70000 < parseAmount (1 / 2)"
  "toFixed2 (fl (parseFloat 70000 - parseAmount (1 / 2))) = 70000"
  "toFixed2 (fl (parseFloat 5000 + parseAmount (1 / 2))) = 5001"
  "toFixed2 (- parseAmount (1 / 2)) = - 1"
  "storeDecimal (1 / 2) = 1"
  "storeDecimal (- (1 / 2)) = - 1"
  by (simp_all add: parse_half parse_700 parse_50 fl_700_less_half fl_50_plus_half toFixed2_def
      storeDecimal_def floor_rat_numeral floor_one_half)

text \<open>The amount string \<open>''700.00000000000001''\<close> is the double 700.\<close>

lemma tiny_eval:
  "0 < parseAmount (70000000000000001 / 1000000000000)"
  "\<not> parseFloat 70000 < parseAmount (70000000000000001 / 1000000000000)"
  "toFixed2 (fl (parseFloat 70000 - parseAmount (70000000000000001 / 1000000000000))) = 0"
  "storeDecimal (- (70000000000000001 / 1000000000000)) = - 70000"
  by (simp_all add: parse_tiny parse_700 fl_zero toFixed2_def storeDecimal_def floor_rat_numeral floor_one_half)

section \<open>Writing a ledger row\<close>

lemma createTransaction_up:
  "\<not> sequenceStoreDown s \<Longrightarrow>
   referenceOf (dateStr_of today) (lastIssued s today + 1) \<notin> set (map referenceNumber (transactions s)) \<Longrightarrow>
   createTransaction today accId ty amt balAfter relId relNumber descr s =
     (Inr \<lparr>referenceNumber = referenceOf (dateStr_of today) (lastIssued s today + 1),
            accountId = accId, tx_type = ty, amount = storeDecimal amt, balanceAfter = balAfter,
            relatedAccountId = relId, relatedAccountNumber = relNumber, description = descr\<rparr>,
      s\<lparr>transactionSequence := (transactionSequence s)(dateStr_of today \<mapsto> lastIssued s today + 1),
        transactions := transactions s @
          [\<lparr>referenceNumber = referenceOf (dateStr_of today) (lastIssued s today + 1),
            accountId = accId, tx_type = ty, amount = storeDecimal amt, balanceAfter = balAfter,
            relatedAccountId = relId, relatedAccountNumber = relNumber, description = descr\<rparr>]\<rparr>)"
  by (simp add: createTransaction_def generateTransactionReference_up insertTransaction_def Let_def)

lemma createTransaction_down:
  "sequenceStoreDown s \<Longrightarrow>
   createTransaction today accId ty amt balAfter relId relNumber descr s = (Inl QueryRejected, s)"
  by (simp add: createTransaction_def generateTransactionReference_down)

lemma createTransaction_used:
  "\<not> sequenceStoreDown s \<Longrightarrow>
   referenceOf (dateStr_of today) (lastIssued s today + 1) \<in> set (map referenceNumber (transactions s)) \<Longrightarrow>
   fst (createTransaction today accId ty amt balAfter relId relNumber descr s) = Inl QueryRejected"
  by (simp add: createTransaction_def generateTransactionReference_up insertTransaction_def Let_def)

text \<open>
  A posting of whole centavos, within a quadrillion, with the sequence store down: the
  balance is written and the procedure throws.
\<close>

lemma deposit_store_down:
  assumes "sequenceStoreDown s" "getAccountById s i = Some a"
      and "amt = of_int A" "0 < A" "A \<le> 1000000000000000" "\<bar>balance a\<bar> \<le> 1000000000000000"
  shows "deposit today i amt descr s = (Inl QueryRejected, updateAccountBalance i (balance a + A) s)"
  using assms
  by (simp add: deposit_def Let_def createTransaction_down parseAmount_of_int parseFloat_pos_iff post_add)

lemma withdraw_store_down:
  assumes "sequenceStoreDown s" "getAccountById s i = Some a"
      and "amt = of_int A" "0 < A" "A \<le> balance a" "balance a \<le> 1000000000000000"
  shows "withdraw today i amt descr s = (Inl QueryRejected, updateAccountBalance i (balance a - A) s)"
  using assms
  by (simp add: withdraw_def Let_def createTransaction_down parseAmount_of_int parseFloat_pos_iff
      parseFloat_less_iff post_sub)

section \<open>Sending an interbank transfer\<close>



lemma getAccountById_cong: "accounts s = accounts s' \<Longrightarrow> getAccountById s i = getAccountById s' i"
  by (simp add: getAccountById_def)

lemma getAccountByNumber_cong: "accounts s = accounts s' \<Longrightarrow> getAccountByNumber s n = getAccountByNumber s' n"
  by (simp add: getAccountByNumber_def)

section \<open>The intrabank transfer\<close>

lemma lastIssued_updateAccountBalance [simp]:
  "lastIssued (updateAccountBalance i b s) d = lastIssued s d"
  by (simp add: lastIssued_def)

lemma lastIssued_drawn:
  "lastIssued (s\<lparr>transactionSequence := (transactionSequence s)(dateStr_of da \<mapsto> n),
                  transactions := x\<rparr>) dz
     = (if dateStr_of dz = dateStr_of da then n else lastIssued s dz)"
  by (simp add: lastIssued_def)

lemma internalTransfer_posting:
  assumes a: "getAccountById s fromId = Some a"
      and b: "getAccountByNumber s toNumber = Some b"
      and ne: "acc_id a \<noteq> acc_id b"
      and len: "length toNumber = 10"
      and amt: "0 < A" "A \<le> balance a"
      and range: "balance a \<le> 1000000000000000" "\<bar>balance b\<bar> \<le> 1000000000000000"
  shows "internalTransfer today1 today2 fromId toNumber (of_int A) descr s =
     (case createTransaction today1 (acc_id a) INTERNAL_TRANSFER (- of_int A) (balance a - A)
             (Some (acc_id b)) (Some (accountNumber b))
             (Some (orElse descr (''Transfer to '' @ accountNumber b)))
             (updateAccountBalance (acc_id b) (balance b + A)
                (updateAccountBalance (acc_id a) (balance a - A) s)) of
        (Inl e, s3) \<Rightarrow> (Inl e, s3)
      | (Inr senderTx, s3) \<Rightarrow>
          (case createTransaction today2 (acc_id b) INTERNAL_TRANSFER (of_int A) (balance b + A)
                  (Some (acc_id a)) (Some (accountNumber a))
                  (Some (orElse descr (''Transfer from '' @ accountNumber a))) s3 of
             (Inl e, s4) \<Rightarrow> (Inl e, s4)
           | (Inr receiverTx, s4) \<Rightarrow> (Inr senderTx, s4)))"
proof -
  have rA: "\<bar>A\<bar> \<le> 1000000000000000" and rB: "\<bar>balance a\<bar> \<le> 1000000000000000"
    using amt range by simp_all
  have guards: "0 < parseFloat A" "\<not> parseFloat (balance a) < parseFloat A"
    using amt rA rB by (simp_all add: parseFloat_pos_iff parseFloat_less_iff)
  have vals: "toFixed2 (fl (parseFloat (balance a) - parseFloat A)) = balance a - A"
    "toFixed2 (fl (parseFloat (balance b) + parseFloat A)) = balance b + A"
    using rA rB range(2) by (simp_all add: post_add post_sub)
  show ?thesis
    using a b ne len guards
    by (simp add: internalTransfer_def Let_def parseAmount_of_int vals)
qed

lemma internalTransfer_ok:
  assumes a: "getAccountById s fromId = Some a"
      and b: "getAccountByNumber s toNumber = Some b"
      and ne: "acc_id a \<noteq> acc_id b"
      and len: "length toNumber = 10"
      and amt: "0 < A" "A \<le> balance a"
      and range: "balance a \<le> 1000000000000000" "\<bar>balance b\<bar> \<le> 1000000000000000"
      and up: "\<not> sequenceStoreDown s"
      and new: "referenceOf (dateStr_of today1) (lastIssued s today1 + 1)
                  \<notin> set (map referenceNumber (transactions s))"
               "referenceOf (dateStr_of today2)
                  ((if dateStr_of today2 = dateStr_of today1 then lastIssued s today1 + 1
                    else lastIssued s today2) + 1)
                  \<notin> set (map referenceNumber (transactions s))"
               "referenceOf (dateStr_of today2)
                  ((if dateStr_of today2 = dateStr_of today1 then lastIssued s today1 + 1
                    else lastIssued s today2) + 1)
                  \<noteq> referenceOf (dateStr_of today1) (lastIssued s today1 + 1)"
  shows "fst (internalTransfer today1 today2 fromId toNumber (of_int A) descr s) =
           Inr \<lparr>referenceNumber = referenceOf (dateStr_of today1) (lastIssued s today1 + 1),
                accountId = acc_id a, tx_type = INTERNAL_TRANSFER, amount = - A,
                balanceAfter = balance a - A, relatedAccountId = Some (acc_id b),
                relatedAccountNumber = Some (accountNumber b),
                description = Some (orElse descr (''Transfer to '' @ accountNumber b))\<rparr>
       \<and> transactions (snd (internalTransfer today1 today2 fromId toNumber (of_int A) descr s)) =
           transactions s @
           [\<lparr>referenceNumber = referenceOf (dateStr_of today1) (lastIssued s today1 + 1),
             accountId = acc_id a, tx_type = INTERNAL_TRANSFER, amount = - A,
             balanceAfter = balance a - A, relatedAccountId = Some (acc_id b),
             relatedAccountNumber = Some (accountNumber b),
             description = Some (orElse descr (''Transfer to '' @ accountNumber b))\<rparr>,
            \<lparr>referenceNumber = referenceOf (dateStr_of today2)
               ((if dateStr_of today2 = dateStr_of today1 then lastIssued s today1 + 1
                 else lastIssued s today2) + 1),
             accountId = acc_id b, tx_type = INTERNAL_TRANSFER, amount = A,
             balanceAfter = balance b + A, relatedAccountId = Some (acc_id a),
             relatedAccountNumber = Some (accountNumber a),
             description = Some (orElse descr (''Transfer from '' @ accountNumber a))\<rparr>]
       \<and> accounts (snd (internalTransfer today1 today2 fromId toNumber (of_int A) descr s)) =
           accounts (updateAccountBalance (acc_id b) (balance b + A)
                       (updateAccountBalance (acc_id a) (balance a - A) s))"
proof -
  let ?r1 = "referenceOf (dateStr_of today1) (lastIssued s today1 + 1)"
  let ?r2 = "referenceOf (dateStr_of today2)
            ((if dateStr_of today2 = dateStr_of today1 then lastIssued s today1 + 1
              else lastIssued s today2) + 1)"
  let ?s2 = "updateAccountBalance (acc_id b) (balance b + A)
                (updateAccountBalance (acc_id a) (balance a - A) s)"
  let ?src = "\<lparr>referenceNumber = ?r1,
            accountId = acc_id a, tx_type = INTERNAL_TRANSFER, amount = - A,
            balanceAfter = balance a - A, relatedAccountId = Some (acc_id b),
            relatedAccountNumber = Some (accountNumber b),
            description = Some (orElse descr (''Transfer to '' @ accountNumber b))\<rparr>"
  let ?dst = "\<lparr>referenceNumber = ?r2,
             accountId = acc_id b, tx_type = INTERNAL_TRANSFER, amount = A,
             balanceAfter = balance b + A, relatedAccountId = Some (acc_id a),
             relatedAccountNumber = Some (accountNumber a),
             description = Some (orElse descr (''Transfer from '' @ accountNumber a))\<rparr>"
  let ?s3 = "?s2\<lparr>transactionSequence := (transactionSequence ?s2)(dateStr_of today1 \<mapsto> lastIssued s today1 + 1),
        transactions := transactions s @ [?src]\<rparr>"
  have up2: "\<not> sequenceStoreDown ?s2" using up by simp
  have first: "createTransaction today1 (acc_id a) INTERNAL_TRANSFER (- of_int A) (balance a - A)
             (Some (acc_id b)) (Some (accountNumber b))
             (Some (orElse descr (''Transfer to '' @ accountNumber b))) ?s2 = (Inr ?src, ?s3)"
    using createTransaction_up [OF up2, of today1] new(1) by (simp add: storeDecimal_of_int)
  have up3: "\<not> sequenceStoreDown ?s3" using up by simp
  have last3: "lastIssued ?s3 today2
      = (if dateStr_of today2 = dateStr_of today1 then lastIssued s today1 + 1 else lastIssued s today2)"
    using lastIssued_drawn [where s = ?s2 and da = today1 and n = "lastIssued s today1 + 1"
        and x = "transactions s @ [?src]" and dz = today2]
    by simp
  have new3: "referenceOf (dateStr_of today2) (lastIssued ?s3 today2 + 1)
                \<notin> set (map referenceNumber (transactions ?s3))"
    unfolding last3 using new(2,3) by simp
  note second =
    createTransaction_up [OF up3 new3, of "acc_id b" INTERNAL_TRANSFER "of_int A" "balance b + A"
      "Some (acc_id a)" "Some (accountNumber a)"
      "Some (orElse descr (''Transfer from '' @ accountNumber a))",
      unfolded storeDecimal_of_int last3]
  show ?thesis
    unfolding internalTransfer_posting [OF a b ne len amt range] first prod.case sum.case second
    by (simp add: updateAccountBalance_def)
qed

text \<open>What a transfer that returns a row has passed.\<close>

lemma internalTransfer_success:
  assumes ok: "fst (internalTransfer today1 today2 fromId toNumber (of_int A) descr s) = Inr tx"
      and a: "getAccountById s fromId = Some a"
      and b: "getAccountByNumber s toNumber = Some b"
      and range: "\<bar>balance a\<bar> \<le> 1000000000000000" "\<bar>balance b\<bar> \<le> 1000000000000000"
  shows "acc_id a \<noteq> acc_id b \<and> length toNumber = 10 \<and> 0 < A \<and> A \<le> balance a
       \<and> \<not> sequenceStoreDown s
       \<and> referenceOf (dateStr_of today1) (lastIssued s today1 + 1)
            \<notin> set (map referenceNumber (transactions s))
       \<and> referenceOf (dateStr_of today2)
            ((if dateStr_of today2 = dateStr_of today1 then lastIssued s today1 + 1
              else lastIssued s today2) + 1)
            \<notin> set (map referenceNumber (transactions s))
       \<and> referenceOf (dateStr_of today2)
            ((if dateStr_of today2 = dateStr_of today1 then lastIssued s today1 + 1
              else lastIssued s today2) + 1)
            \<noteq> referenceOf (dateStr_of today1) (lastIssued s today1 + 1)"
proof -
  let ?r1 = "referenceOf (dateStr_of today1) (lastIssued s today1 + 1)"
  let ?r2 = "referenceOf (dateStr_of today2)
            ((if dateStr_of today2 = dateStr_of today1 then lastIssued s today1 + 1
              else lastIssued s today2) + 1)"
  let ?s2 = "updateAccountBalance (acc_id b) (balance b + A)
                (updateAccountBalance (acc_id a) (balance a - A) s)"
  let ?c1 = "createTransaction today1 (acc_id a) INTERNAL_TRANSFER (- of_int A) (balance a - A)
             (Some (acc_id b)) (Some (accountNumber b))
             (Some (orElse descr (''Transfer to '' @ accountNumber b))) ?s2"
  have len: "length toNumber = 10" using ok by (simp add: internalTransfer_def split: if_splits)
  have pos: "0 < A"
    using ok len by (simp add: internalTransfer_def parseAmount_of_int parseFloat_pos_iff_all split: if_splits)
  have ne: "acc_id a \<noteq> acc_id b"
    using ok len pos a b
    by (auto simp: internalTransfer_def parseAmount_of_int parseFloat_pos_iff_all split: if_splits)
  have le: "A \<le> balance a"
    using ok len pos a b ne
    by (auto simp: internalTransfer_def Let_def parseAmount_of_int parseFloat_pos_iff_all
        parseFloat_less_iff_left [OF range(1)] split: if_splits)
  have ra: "balance a \<le> 1000000000000000" using range(1) by simp
  note body = internalTransfer_posting [OF a b ne len pos le ra range(2), of today1 today2 descr]
  have up: "\<not> sequenceStoreDown s"
  proof
    assume "sequenceStoreDown s"
    then have "sequenceStoreDown ?s2" by simp
    from createTransaction_down [OF this] ok show False unfolding body by simp
  qed
  then have up2: "\<not> sequenceStoreDown ?s2" by simp
  have new1: "?r1 \<notin> set (map referenceNumber (transactions s))"
  proof
    assume "?r1 \<in> set (map referenceNumber (transactions s))"
    then have "referenceOf (dateStr_of today1) (lastIssued ?s2 today1 + 1)
                 \<in> set (map referenceNumber (transactions ?s2))"
      by simp
    from createTransaction_used [OF up2 this]
    have "fst ?c1 = Inl QueryRejected" .
    then obtain s3 where "?c1 = (Inl QueryRejected, s3)" by (metis prod.collapse)
    with ok show False unfolding body by simp
  qed
  have new2: "?r2 \<notin> set (map referenceNumber (transactions s)) \<and> ?r2 \<noteq> ?r1"
  proof (rule ccontr)
    assume n: "\<not> (?r2 \<notin> set (map referenceNumber (transactions s)) \<and> ?r2 \<noteq> ?r1)"
    let ?src = "\<lparr>referenceNumber = ?r1,
            accountId = acc_id a, tx_type = INTERNAL_TRANSFER, amount = - A,
            balanceAfter = balance a - A, relatedAccountId = Some (acc_id b),
            relatedAccountNumber = Some (accountNumber b),
            description = Some (orElse descr (''Transfer to '' @ accountNumber b))\<rparr>"
    let ?s3 = "?s2\<lparr>transactionSequence := (transactionSequence ?s2)(dateStr_of today1 \<mapsto> lastIssued s today1 + 1),
        transactions := transactions s @ [?src]\<rparr>"
    have first: "?c1 = (Inr ?src, ?s3)"
      using createTransaction_up [OF up2, of today1] new1 by (simp add: storeDecimal_of_int)
    have up3: "\<not> sequenceStoreDown ?s3" using up by simp
    have "lastIssued ?s3 today2
        = (if dateStr_of today2 = dateStr_of today1 then lastIssued s today1 + 1 else lastIssued s today2)"
      using lastIssued_drawn [where s = ?s2 and da = today1 and n = "lastIssued s today1 + 1"
        and x = "transactions s @ [?src]" and dz = today2]
      by simp
    then have "referenceOf (dateStr_of today2) (lastIssued ?s3 today2 + 1)
            \<in> set (map referenceNumber (transactions ?s3))"
      using n by auto
    from createTransaction_used [OF up3 this]
    have "fst (createTransaction today2 (acc_id b) INTERNAL_TRANSFER (of_int A) (balance b + A)
                  (Some (acc_id a)) (Some (accountNumber a))
                  (Some (orElse descr (''Transfer from '' @ accountNumber a))) ?s3) = Inl QueryRejected" .
    then obtain s4 where "createTransaction today2 (acc_id b) INTERNAL_TRANSFER (of_int A) (balance b + A)
                  (Some (acc_id a)) (Some (accountNumber a))
                  (Some (orElse descr (''Transfer from '' @ accountNumber a))) ?s3 = (Inl QueryRejected, s4)"
      by (metis prod.collapse)
    with ok show False unfolding body first by simp
  qed
  from ne len pos le up new1 new2 show ?thesis by blast
qed

section \<open>C1: an interbank transfer and its callback\<close>




section \<open>C2: the status of an interbank record\<close>





text \<open>
  What follows for the refund: the reversal looks only at the status the record has when
  the callback arrives. A FAILED record that a PENDING callback has made PENDING again is
  refunded once more by the next FAILED callback; on \<open>ex_sent\<close> the balance goes from 100.00
  to 700.00 and then to 1300.00.
\<close>

lemma failed_pending_failed:
  "map balance (accounts (applyInterbankCallbacks ''TXN20260115000001''
      [(ex_today, FAILED, None, None)] ex_sent)) = [70000]
   \<and> map balance (accounts (applyInterbankCallbacks ''TXN20260115000001''
      [(ex_today, FAILED, None, None), (ex_today, PENDING, None, None),
       (ex_today, FAILED, None, None)] ex_sent)) = [130000]"
  by (simp add: updateInstapayTransactionStatus_def ex_eval)

section \<open>C3: the same callback twice\<close>

text \<open>
  When the first delivery of a callback returns, the record carries its status, and the
  same callback delivered again changes no account and appends no ledger row.
\<close>

lemma callback_returned_table:
  assumes "fst (updateInstapayTransactionStatus today reference st switchRef message s) = Inr x"
      and "getInstapayTransactionByReference s reference = Some t"
  shows "instapayTransactions (snd (updateInstapayTransactionStatus today reference st switchRef message s))
           = setStatus reference st switchRef message t (instapayTransactions s)"
proof (cases "st = FAILED \<and> status t = PENDING")
  case False
  then show ?thesis using callback_no_reversal [OF assms(2) False] by simp
next
  case True
  show ?thesis
  proof (cases "getAccountById s (sourceAccountId t)")
    case None
    then show ?thesis using callback_reversal_no_account [OF assms(2)] True by simp
  next
    case (Some a)
    show ?thesis
    proof (cases "sequenceStoreDown s")
      case down: True
      then show ?thesis
        using callback_reversal_rejected [OF assms(2) _ _ Some down, of st today switchRef message]
          True assms(1)
        by simp
    next
      case up: False
      then show ?thesis
        using assms True Some
        by (simp add: updateInstapayTransactionStatus_def Let_def generateTransactionReference_up
            insertTransaction_def setStatus_def split: if_splits)
    qed
  qed
qed

lemma callback_returned:
  assumes "fst (updateInstapayTransactionStatus today reference st switchRef message s) = Inr x"
  shows "\<exists>t'. getInstapayTransactionByReference
           (snd (updateInstapayTransactionStatus today reference st switchRef message s)) reference
             = Some t' \<and> status t' = st"
proof (cases "getInstapayTransactionByReference s reference")
  case None
  then show ?thesis using assms by (simp add: callback_not_found)
next
  case (Some t)
  then have f: "find (\<lambda>t. ip_referenceNumber t = reference) (instapayTransactions s) = Some t"
    by (simp add: getInstapayTransactionByReference_def)
  show ?thesis
    using callback_returned_table [OF assms Some] find_setStatus [OF f, of st switchRef message t]
    by (simp add: getInstapayTransactionByReference_def)
qed

lemma callback_twice_returned:
  assumes "fst (updateInstapayTransactionStatus today1 reference st switchRef1 message1 s) = Inr x"
  shows "accounts (snd (updateInstapayTransactionStatus today2 reference st switchRef2 message2
                  (snd (updateInstapayTransactionStatus today1 reference st switchRef1 message1 s))))
          = accounts (snd (updateInstapayTransactionStatus today1 reference st switchRef1 message1 s))
       \<and> transactions (snd (updateInstapayTransactionStatus today2 reference st switchRef2 message2
                  (snd (updateInstapayTransactionStatus today1 reference st switchRef1 message1 s))))
          = transactions (snd (updateInstapayTransactionStatus today1 reference st switchRef1 message1 s))"
proof -
  let ?s1 = "snd (updateInstapayTransactionStatus today1 reference st switchRef1 message1 s)"
  from callback_returned [OF assms]
  obtain t' where t': "getInstapayTransactionByReference ?s1 reference = Some t'" "status t' = st"
    by blast
  have "\<not> (st = FAILED \<and> status t' = PENDING)" using t'(2) by auto
  from callback_no_reversal [OF t'(1) this] show ?thesis by simp
qed

text \<open>
  C3 asks that the same callback delivered twice change the balance at most once. The
  reversal writes the refund first, draws the reference number of its ledger row next, and
  sets the status last. Let the FAILED callback for the pending transfer of \<open>ex_sent\<close>
  (600.00 sent, 100.00 left) arrive while the sequence store rejects: the balance becomes
  700.00, the callback throws, no DEPOSIT row is written and the record is still PENDING.
  The same callback delivered again credits 600.00 once more: the balance is 1300.00,
  whether the sequence store still rejects or works again, in which case the callback
  returns, one DEPOSIT row is written and the record is FAILED.
\<close>

theorem failed_callback_redelivered:
  "map balance (accounts ex_sent) = [10000]
   \<and> map status (instapayTransactions ex_sent) = [PENDING]
   \<and> fst (ex_failed (ex_sent\<lparr>sequenceStoreDown := True\<rparr>)) = Inl QueryRejected
   \<and> map balance (accounts (snd (ex_failed (ex_sent\<lparr>sequenceStoreDown := True\<rparr>)))) = [70000]
   \<and> map tx_type (transactions (snd (ex_failed (ex_sent\<lparr>sequenceStoreDown := True\<rparr>)))) = [INSTAPAY]
   \<and> map status (instapayTransactions (snd (ex_failed (ex_sent\<lparr>sequenceStoreDown := True\<rparr>))))
       = [PENDING]
   \<and> fst (ex_failed (snd (ex_failed (ex_sent\<lparr>sequenceStoreDown := True\<rparr>)))) = Inl QueryRejected
   \<and> map balance (accounts (snd (ex_failed (snd (ex_failed (ex_sent\<lparr>sequenceStoreDown := True\<rparr>))))))
       = [130000]
   \<and> map balance (accounts (snd (ex_failed
        ((snd (ex_failed (ex_sent\<lparr>sequenceStoreDown := True\<rparr>)))\<lparr>sequenceStoreDown := False\<rparr>))))
       = [130000]
   \<and> map tx_type (transactions (snd (ex_failed
        ((snd (ex_failed (ex_sent\<lparr>sequenceStoreDown := True\<rparr>)))\<lparr>sequenceStoreDown := False\<rparr>))))
       = [INSTAPAY, DEPOSIT]
   \<and> map status (instapayTransactions (snd (ex_failed
        ((snd (ex_failed (ex_sent\<lparr>sequenceStoreDown := True\<rparr>)))\<lparr>sequenceStoreDown := False\<rparr>))))
       = [FAILED]"
proof -
  have first: "ex_failed (ex_sent\<lparr>sequenceStoreDown := True\<rparr>)
      = (Inl QueryRejected, ex_sent\<lparr>accounts := [ex_account], sequenceStoreDown := True\<rparr>)"
    by (simp add: updateInstapayTransactionStatus_def generateTransactionReference_down ex_eval)
  have again: "ex_failed (ex_sent\<lparr>accounts := [ex_account], sequenceStoreDown := True\<rparr>)
      = (Inl QueryRejected,
         ex_sent\<lparr>accounts := [ex_account\<lparr>balance := 130000\<rparr>], sequenceStoreDown := True\<rparr>)"
    by (simp add: updateInstapayTransactionStatus_def generateTransactionReference_down ex_eval)
  have up: "map balance (accounts (snd (ex_failed
        (ex_sent\<lparr>accounts := [ex_account], sequenceStoreDown := False\<rparr>)))) = [130000]"
    "map tx_type (transactions (snd (ex_failed
        (ex_sent\<lparr>accounts := [ex_account], sequenceStoreDown := False\<rparr>)))) = [INSTAPAY, DEPOSIT]"
    "map status (instapayTransactions (snd (ex_failed
        (ex_sent\<lparr>accounts := [ex_account], sequenceStoreDown := False\<rparr>)))) = [FAILED]"
    by (simp_all add: updateInstapayTransactionStatus_def ex_eval)
  show ?thesis
    by (simp add: first again up; simp add: ex_sent_def ex_account_def)
qed

section \<open>C4: withdrawing more than the balance\<close>

text \<open>
  C4, as amended. Take an existing account with a balance from 0 to
  10,000,000,000,000.00 and an amount of \<open>A\<close> whole centavos that is greater than the
  balance. The tRPC procedure \<open>withdraw\<close> throws the BAD_REQUEST
  error \<open>Insufficient balance\<close>, which carries no balance, and leaves the database as it
  was. The REST endpoint, asked by account number, answers 400 and leaves the database as
  it was: for an active account with INSUFFICIENT_BALANCE and a message that ends with the
  available balance, printed from the double that \<open>parseFloat\<close> made of it, which
  \<open>toFixed(2)\<close> gives back as the balance; for a closed account with ACCOUNT_CLOSED, the
  status being looked at before the balance.
\<close>

theorem withdraw_insufficient:
  assumes range: "0 \<le> balance a" "balance a \<le> 1000000000000000"
      and amount: "balance a < A"
  shows "(getAccountById s i = Some a \<longrightarrow>
            withdraw today i (of_int A) descr s
              = (Inl (TRPCError BAD_REQUEST ''Insufficient balance''), s))
       \<and> (getAccountByNumber s n = Some a \<and> n \<noteq> [] \<longrightarrow>
            (acc_status a = active \<longrightarrow>
               rest_withdrawal today n (of_int A) descr s =
                 (RestErrorNumber 400 ''INSUFFICIENT_BALANCE'' ''Insufficient balance. Available: ''
                    (parseFloat (balance a)), s))
          \<and> (acc_status a = closed \<longrightarrow>
               rest_withdrawal today n (of_int A) descr s =
                 (RestError 400 ''ACCOUNT_CLOSED'' ''Cannot withdraw from a closed account'', s)))
       \<and> toFixed2 (parseFloat (balance a)) = balance a"
proof -
  have rB: "\<bar>balance a\<bar> \<le> 1000000000000000" and pos: "0 < A"
    using range amount by simp_all
  have g: "0 < parseFloat A" "parseFloat (balance a) < parseFloat A"
    using pos amount by (simp_all add: parseFloat_pos_iff_all parseFloat_less_iff_left [OF rB])
  then have guards: "0 < parseFloat A" "parseFloat (balance a) < parseFloat A" "parseFloat A \<noteq> 0"
    "\<not> parseFloat A \<le> 0"
    by simp_all
  have trpc: "withdraw today i (of_int A) descr s
      = (Inl (TRPCError BAD_REQUEST ''Insufficient balance''), s)"
    if "getAccountById s i = Some a"
    using that guards by (simp add: withdraw_def Let_def parseAmount_of_int)
  have rest_active: "rest_withdrawal today n (of_int A) descr s =
                 (RestErrorNumber 400 ''INSUFFICIENT_BALANCE'' ''Insufficient balance. Available: ''
                    (parseFloat (balance a)), s)"
    if "getAccountByNumber s n = Some a" "n \<noteq> []" "acc_status a = active"
    using that guards by (simp add: rest_withdrawal_def Let_def parseAmount_of_int)
  have rest_closed: "rest_withdrawal today n (of_int A) descr s =
                 (RestError 400 ''ACCOUNT_CLOSED'' ''Cannot withdraw from a closed account'', s)"
    if "getAccountByNumber s n = Some a" "n \<noteq> []" "acc_status a = closed"
    using that guards by (simp add: rest_withdrawal_def Let_def parseAmount_of_int)
  show ?thesis
    using trpc rest_active rest_closed toFixed2_parseFloat(1) [OF rB] by blast
qed

text \<open>Asking for 800.00 from the account of \<open>ex_db\<close>, which holds 700.00.\<close>

theorem withdraw_insufficient_witness:
  "(0::int) \<le> balance ex_account \<and> balance ex_account \<le> 1000000000000000
   \<and> balance ex_account < 80000
   \<and> getAccountById ex_db 1 = Some ex_account
   \<and> getAccountByNumber ex_db ''0011234567'' = Some ex_account
   \<and> acc_status ex_account = active \<and> ''0011234567'' \<noteq> []
   \<and> withdraw ex_today 1 80000 None ex_db = (Inl (TRPCError BAD_REQUEST ''Insufficient balance''), ex_db)
   \<and> rest_withdrawal ex_today ''0011234567'' 80000 None ex_db =
        (RestErrorNumber 400 ''INSUFFICIENT_BALANCE'' ''Insufficient balance. Available: '' 700, ex_db)
   \<and> toFixed2 700 = 70000"
proof -
  have range: "(0::int) \<le> balance ex_account" "balance ex_account \<le> 1000000000000000"
    by (simp_all add: ex_account_def)
  have amount: "balance ex_account < 80000"
    by (simp add: ex_account_def)
  have a: "getAccountById ex_db 1 = Some ex_account"
    "getAccountByNumber ex_db ''0011234567'' = Some ex_account"
    by (simp_all add: getAccountById_def getAccountByNumber_def ex_db_def ex_account_def)
  have st: "acc_status ex_account = active" "''0011234567'' \<noteq> []"
    by (simp_all add: ex_account_def)
  have m: "parseFloat (balance ex_account) = 700" "balance ex_account = 70000"
    by (simp_all add: ex_account_def parse_700)
  from withdraw_insufficient [OF range amount, of ex_db 1 ex_today None "''0011234567''"]
  have "withdraw ex_today 1 (of_int 80000) None ex_db
          = (Inl (TRPCError BAD_REQUEST ''Insufficient balance''), ex_db)"
    and "rest_withdrawal ex_today ''0011234567'' (of_int 80000) None ex_db =
          (RestErrorNumber 400 ''INSUFFICIENT_BALANCE'' ''Insufficient balance. Available: ''
             (parseFloat (balance ex_account)), ex_db)"
    and "toFixed2 (parseFloat (balance ex_account)) = balance ex_account"
    using a st by blast+
  then show ?thesis using range amount a st by (simp add: m parse_700)
qed

text \<open>
  C4 as stated promises, for every account and every amount above the balance, an
  insufficient-balance error that carries the available balance. Each line below is a
  withdrawal of more than the balance that is answered otherwise.

  \<^item> 800.00 from the closed account holding 700.00, on the REST endpoint: ACCOUNT_CLOSED.
  \<^item> 800.00 from the account holding 700.00, on the tRPC procedure: the error is
    \<open>Insufficient balance\<close> and carries no balance.
  \<^item> 90,071,992,547,409.07 from the balance 90,071,992,547,409.06, on the tRPC procedure:
    both are the same double, the withdrawal is posted and the balance becomes 0.00.
  \<^item> The amount string \<open>''700.00000000000001''\<close> from the balance 700.00, on the tRPC
    procedure: the amount is the double 700, the withdrawal is posted and the balance
    becomes 0.00.
\<close>

theorem withdraw_insufficient_closed:
  "map balance (accounts ex_closed) = [70000]
   \<and> rest_withdrawal ex_today ''0011234567'' 80000 None ex_closed =
        (RestError 400 ''ACCOUNT_CLOSED'' ''Cannot withdraw from a closed account'', ex_closed)
   \<and> withdraw ex_today 1 80000 None ex_db = (Inl (TRPCError BAD_REQUEST ''Insufficient balance''), ex_db)
   \<and> fst (withdraw ex_today 1 9007199254740907 None (ex_holding 9007199254740906)) =
        Inr \<lparr>referenceNumber = ''TXN20260115000001'', accountId = 1, tx_type = WITHDRAWAL,
             amount = - 9007199254740907, balanceAfter = 0, relatedAccountId = None,
             relatedAccountNumber = None, description = Some ''Manual Withdrawal''\<rparr>
   \<and> map balance (accounts (snd (withdraw ex_today 1 9007199254740907 None
        (ex_holding 9007199254740906)))) = [0]
   \<and> fst (withdraw ex_today 1 (70000000000000001 / 1000000000000) None ex_db) =
        Inr \<lparr>referenceNumber = ''TXN20260115000001'', accountId = 1, tx_type = WITHDRAWAL,
             amount = - 70000, balanceAfter = 0, relatedAccountId = None,
             relatedAccountNumber = None, description = Some ''Manual Withdrawal''\<rparr>
   \<and> map balance (accounts (snd (withdraw ex_today 1 (70000000000000001 / 1000000000000) None
        ex_db))) = [0]"
proof -
  have closed: "map balance (accounts ex_closed) = [70000]"
    "rest_withdrawal ex_today ''0011234567'' 80000 None ex_closed =
        (RestError 400 ''ACCOUNT_CLOSED'' ''Cannot withdraw from a closed account'', ex_closed)"
    by (simp_all add: rest_withdrawal_def ex_closed_def ex_eval)
  have trpc: "withdraw ex_today 1 80000 None ex_db
      = (Inl (TRPCError BAD_REQUEST ''Insufficient balance''), ex_db)"
    by (simp add: withdraw_def ex_eval)
  have big: "withdraw ex_today 1 9007199254740907 None (ex_holding 9007199254740906) =
       (Inr \<lparr>referenceNumber = ''TXN20260115000001'', accountId = 1, tx_type = WITHDRAWAL,
             amount = - 9007199254740907, balanceAfter = 0, relatedAccountId = None,
             relatedAccountNumber = None, description = Some ''Manual Withdrawal''\<rparr>,
        ex_db\<lparr>accounts := [ex_account\<lparr>balance := 0\<rparr>],
          transactions := [\<lparr>referenceNumber = ''TXN20260115000001'', accountId = 1,
             tx_type = WITHDRAWAL, amount = - 9007199254740907, balanceAfter = 0,
             relatedAccountId = None, relatedAccountNumber = None,
             description = Some ''Manual Withdrawal''\<rparr>],
          transactionSequence := [''20260115'' \<mapsto> 1]\<rparr>)"
    by (simp add: withdraw_def ex_eval beyond_withdraw)
  have tiny: "withdraw ex_today 1 (70000000000000001 / 1000000000000) None ex_db =
       (Inr \<lparr>referenceNumber = ''TXN20260115000001'', accountId = 1, tx_type = WITHDRAWAL,
             amount = - 70000, balanceAfter = 0, relatedAccountId = None,
             relatedAccountNumber = None, description = Some ''Manual Withdrawal''\<rparr>,
        ex_db\<lparr>accounts := [ex_account\<lparr>balance := 0\<rparr>],
          transactions := [\<lparr>referenceNumber = ''TXN20260115000001'', accountId = 1,
             tx_type = WITHDRAWAL, amount = - 70000, balanceAfter = 0,
             relatedAccountId = None, relatedAccountNumber = None,
             description = Some ''Manual Withdrawal''\<rparr>],
          transactionSequence := [''20260115'' \<mapsto> 1]\<rparr>)"
    by (simp add: withdraw_def ex_eval tiny_eval)
  show ?thesis unfolding big tiny using closed trpc by (simp add: ex_db_def ex_account_def)
qed

section \<open>C5: withdrawing from a closed account\<close>

text \<open>
  C5 asks that a withdrawal from a closed account fail with nothing changed. The REST
  endpoint does that. The tRPC procedure \<open>withdraw\<close> never looks at the status: on the
  closed account holding 700.00 a withdrawal of 300.00 goes through, the balance becomes
  400.00 and a WITHDRAWAL row is appended.
\<close>

theorem withdraw_closed_account:
  "map acc_status (accounts ex_closed) = [closed]
   \<and> rest_withdrawal ex_today ''0011234567'' 30000 None ex_closed =
        (RestError 400 ''ACCOUNT_CLOSED'' ''Cannot withdraw from a closed account'', ex_closed)
   \<and> fst (withdraw ex_today 1 30000 None ex_closed) =
        Inr \<lparr>referenceNumber = ''TXN20260115000001'', accountId = 1, tx_type = WITHDRAWAL,
             amount = - 30000, balanceAfter = 40000, relatedAccountId = None,
             relatedAccountNumber = None, description = Some ''Manual Withdrawal''\<rparr>
   \<and> map balance (accounts (snd (withdraw ex_today 1 30000 None ex_closed))) = [40000]
   \<and> length (transactions (snd (withdraw ex_today 1 30000 None ex_closed))) = 1"
  by (simp add: withdraw_def rest_withdrawal_def ex_closed_def ex_eval)

section \<open>C6: the two rows of an intrabank transfer\<close>

text \<open>
  C6, as amended. Let \<open>internalTransfer\<close> return a row for an amount of \<open>A\<close> whole
  centavos, the two balances being within 10,000,000,000,000.00. Then the
  source and destination accounts have different ids, \<open>A\<close> is positive, and exactly two
  rows have been appended to the ledger. The first, which is the row returned, is the
  source's: INTERNAL_TRANSFER, amount \<open>- A\<close>, related account id and number those of the
  destination, balance-after the source balance less \<open>A\<close>. The second is the
  destination's: INTERNAL_TRANSFER, amount \<open>A\<close>, related account id and number those of the
  source, balance-after the destination balance plus \<open>A\<close>. The two reference numbers
  differ. Afterwards the source account holds \<open>A\<close> less and the destination \<open>A\<close> more.
\<close>

theorem internal_transfer_rows:
  assumes ok: "fst (internalTransfer today1 today2 fromId toNumber (of_int A) descr s) = Inr tx"
      and found: "getAccountById s fromId = Some a" "getAccountByNumber s toNumber = Some b"
      and range: "\<bar>balance a\<bar> \<le> 1000000000000000" "\<bar>balance b\<bar> \<le> 1000000000000000"
  shows "acc_id a \<noteq> acc_id b \<and> 0 < A
       \<and> (\<exists>src dst.
             transactions (snd (internalTransfer today1 today2 fromId toNumber (of_int A) descr s))
               = transactions s @ [src, dst]
           \<and> tx = src
           \<and> tx_type src = INTERNAL_TRANSFER \<and> accountId src = acc_id a \<and> amount src = - A
           \<and> relatedAccountId src = Some (acc_id b)
           \<and> relatedAccountNumber src = Some (accountNumber b)
           \<and> balanceAfter src = balance a - A
           \<and> tx_type dst = INTERNAL_TRANSFER \<and> accountId dst = acc_id b \<and> amount dst = A
           \<and> relatedAccountId dst = Some (acc_id a)
           \<and> relatedAccountNumber dst = Some (accountNumber a)
           \<and> balanceAfter dst = balance b + A
           \<and> referenceNumber src \<noteq> referenceNumber dst)
       \<and> map_option balance
            (getAccountById (snd (internalTransfer today1 today2 fromId toNumber (of_int A) descr s))
               fromId)
           = Some (balance a - A)
       \<and> map_option balance
            (getAccountByNumber (snd (internalTransfer today1 today2 fromId toNumber (of_int A) descr s))
               toNumber)
           = Some (balance b + A)"
proof -
  let ?r1 = "referenceOf (dateStr_of today1) (lastIssued s today1 + 1)"
  let ?r2 = "referenceOf (dateStr_of today2)
            ((if dateStr_of today2 = dateStr_of today1 then lastIssued s today1 + 1
              else lastIssued s today2) + 1)"
  from internalTransfer_success [OF ok found range]
  have ne: "acc_id a \<noteq> acc_id b" and len: "length toNumber = 10" and pos: "0 < A"
    and le: "A \<le> balance a" and up: "\<not> sequenceStoreDown s"
    and new: "?r1 \<notin> set (map referenceNumber (transactions s))"
             "?r2 \<notin> set (map referenceNumber (transactions s))" "?r2 \<noteq> ?r1"
    by blast+
  have ra: "balance a \<le> 1000000000000000" using range(1) by simp
  let ?s' = "snd (internalTransfer today1 today2 fromId toNumber (of_int A) descr s)"
  let ?src = "\<lparr>referenceNumber = ?r1,
                accountId = acc_id a, tx_type = INTERNAL_TRANSFER, amount = - A,
                balanceAfter = balance a - A, relatedAccountId = Some (acc_id b),
                relatedAccountNumber = Some (accountNumber b),
                description = Some (orElse descr (''Transfer to '' @ accountNumber b))\<rparr>"
  let ?dst = "\<lparr>referenceNumber = ?r2,
             accountId = acc_id b, tx_type = INTERNAL_TRANSFER, amount = A,
             balanceAfter = balance b + A, relatedAccountId = Some (acc_id a),
             relatedAccountNumber = Some (accountNumber a),
             description = Some (orElse descr (''Transfer from '' @ accountNumber a))\<rparr>"
  from internalTransfer_ok [OF found ne len pos le ra range(2) up new, of descr]
  have res: "fst (internalTransfer today1 today2 fromId toNumber (of_int A) descr s) = Inr ?src"
    and txs: "transactions ?s' = transactions s @ [?src, ?dst]"
    and acc: "accounts ?s' = accounts (updateAccountBalance (acc_id b) (balance b + A)
                       (updateAccountBalance (acc_id a) (balance a - A) s))"
    by blast+
  have tx: "tx = ?src" using ok res by simp
  have from_after: "map_option balance (getAccountById ?s' fromId) = Some (balance a - A)"
    using getAccountById_cong [OF acc, of fromId] found(1) ne getAccountById_acc_id [OF found(1)]
    by (simp add: getAccountById_updateAccountBalance)
  have to_after: "map_option balance (getAccountByNumber ?s' toNumber) = Some (balance b + A)"
    using getAccountByNumber_cong [OF acc, of toNumber] found(2) ne
    by (simp add: getAccountByNumber_updateAccountBalance)
  have rows: "transactions ?s' = transactions s @ [?src, ?dst]
           \<and> tx = ?src
           \<and> tx_type ?src = INTERNAL_TRANSFER \<and> accountId ?src = acc_id a \<and> amount ?src = - A
           \<and> relatedAccountId ?src = Some (acc_id b)
           \<and> relatedAccountNumber ?src = Some (accountNumber b)
           \<and> balanceAfter ?src = balance a - A
           \<and> tx_type ?dst = INTERNAL_TRANSFER \<and> accountId ?dst = acc_id b \<and> amount ?dst = A
           \<and> relatedAccountId ?dst = Some (acc_id a)
           \<and> relatedAccountNumber ?dst = Some (accountNumber a)
           \<and> balanceAfter ?dst = balance b + A
           \<and> referenceNumber ?src \<noteq> referenceNumber ?dst"
    using txs tx new(3) by simp
  then have "\<exists>src dst. transactions ?s' = transactions s @ [src, dst]
           \<and> tx = src
           \<and> tx_type src = INTERNAL_TRANSFER \<and> accountId src = acc_id a \<and> amount src = - A
           \<and> relatedAccountId src = Some (acc_id b)
           \<and> relatedAccountNumber src = Some (accountNumber b)
           \<and> balanceAfter src = balance a - A
           \<and> tx_type dst = INTERNAL_TRANSFER \<and> accountId dst = acc_id b \<and> amount dst = A
           \<and> relatedAccountId dst = Some (acc_id a)
           \<and> relatedAccountNumber dst = Some (accountNumber a)
           \<and> balanceAfter dst = balance b + A
           \<and> referenceNumber src \<noteq> referenceNumber dst"
    by blast
  with ne pos from_after to_after show ?thesis by blast
qed

text \<open>A transfer of 300.00 from the first account of \<open>ex_two\<close> to the second.\<close>

theorem internal_transfer_rows_witness:
  "fst (internalTransfer ex_today ex_today 1 ''0027654321'' 30000 None ex_two) =
     Inr \<lparr>referenceNumber = ''TXN20260115000001'', accountId = 1, tx_type = INTERNAL_TRANSFER,
          amount = - 30000, balanceAfter = 40000, relatedAccountId = Some 2,
          relatedAccountNumber = Some ''0027654321'',
          description = Some ''Transfer to 0027654321''\<rparr>
   \<and> getAccountById ex_two 1 = Some ex_account
   \<and> getAccountByNumber ex_two ''0027654321'' = Some ex_account2
   \<and> \<bar>balance ex_account\<bar> \<le> 1000000000000000 \<and> \<bar>balance ex_account2\<bar> \<le> 1000000000000000
   \<and> map_option balance
        (getAccountById (snd (internalTransfer ex_today ex_today 1 ''0027654321'' 30000 None ex_two)) 1)
       = Some 40000
   \<and> map_option balance
        (getAccountByNumber (snd (internalTransfer ex_today ex_today 1 ''0027654321'' 30000 None ex_two))
           ''0027654321'')
       = Some 35000"
proof -
  have ok: "fst (internalTransfer ex_today ex_today 1 ''0027654321'' (of_int 30000) None ex_two) =
     Inr \<lparr>referenceNumber = ''TXN20260115000001'', accountId = 1, tx_type = INTERNAL_TRANSFER,
          amount = - 30000, balanceAfter = 40000, relatedAccountId = Some 2,
          relatedAccountNumber = Some ''0027654321'',
          description = Some ''Transfer to 0027654321''\<rparr>"
    by (simp add: internalTransfer_def ex_two_def ex_account2_def ex_eval)
  have found: "getAccountById ex_two 1 = Some ex_account"
    "getAccountByNumber ex_two ''0027654321'' = Some ex_account2"
    by (simp_all add: getAccountById_def getAccountByNumber_def ex_two_def ex_db_def
        ex_account_def ex_account2_def)
  have range: "\<bar>balance ex_account\<bar> \<le> 1000000000000000"
    "\<bar>balance ex_account2\<bar> \<le> 1000000000000000"
    by (simp_all add: ex_account_def ex_account2_def)
  from internal_transfer_rows [OF ok found range]
  have "map_option balance
        (getAccountById (snd (internalTransfer ex_today ex_today 1 ''0027654321'' (of_int 30000) None
           ex_two)) 1)
       = Some (balance ex_account - 30000)"
    and "map_option balance
        (getAccountByNumber (snd (internalTransfer ex_today ex_today 1 ''0027654321'' (of_int 30000)
           None ex_two)) ''0027654321'')
       = Some (balance ex_account2 + 30000)"
    by blast+
  with ok found range show ?thesis by (simp add: ex_account_def ex_account2_def)
qed

text \<open>
  C6 as stated speaks of every successful transfer. Three transfers that return a row and
  move other amounts:

  \<^item> 0.01 from the account holding 700.00 to an account holding 90,071,992,547,409.06:
    the source is left with 699.99, the rows carry \<open>- 0.01\<close> and 0.01, and the destination
    is credited 0.02, its balance and the balance-after of its row being
    90,071,992,547,409.08.
  \<^item> 0.01 from an account holding 90,071,992,547,409.94 to the account holding 50.00: the
    destination gets 50.01 and the source is left with 90,071,992,547,409.92, 0.02 less.
  \<^item> the amount string \<open>''0.005''\<close> from the account holding 700.00 to the account holding
    50.00: the transfer returns its row, the source keeps 700.00 and the destination gets
    50.01, and these are the balance-after values of the two rows.
\<close>

theorem internal_transfer_other_amounts:
  "map balance (accounts (ex_two\<lparr>accounts := [ex_account, ex_account2\<lparr>balance := 9007199254740906\<rparr>]\<rparr>))
     = [70000, 9007199254740906]
   \<and> fst (internalTransfer ex_today ex_today 1 ''0027654321'' 1 None
        (ex_two\<lparr>accounts := [ex_account, ex_account2\<lparr>balance := 9007199254740906\<rparr>]\<rparr>))
       = Inr \<lparr>referenceNumber = ''TXN20260115000001'', accountId = 1, tx_type = INTERNAL_TRANSFER,
          amount = - 1, balanceAfter = 69999, relatedAccountId = Some 2,
          relatedAccountNumber = Some ''0027654321'',
          description = Some ''Transfer to 0027654321''\<rparr>
   \<and> map balance (accounts (snd (internalTransfer ex_today ex_today 1 ''0027654321'' 1 None
        (ex_two\<lparr>accounts := [ex_account, ex_account2\<lparr>balance := 9007199254740906\<rparr>]\<rparr>))))
       = [69999, 9007199254740908]
   \<and> map amount (transactions (snd (internalTransfer ex_today ex_today 1 ''0027654321'' 1 None
        (ex_two\<lparr>accounts := [ex_account, ex_account2\<lparr>balance := 9007199254740906\<rparr>]\<rparr>))))
       = [- 1, 1]
   \<and> map balanceAfter (transactions (snd (internalTransfer ex_today ex_today 1 ''0027654321'' 1 None
        (ex_two\<lparr>accounts := [ex_account, ex_account2\<lparr>balance := 9007199254740906\<rparr>]\<rparr>))))
       = [69999, 9007199254740908]
   \<and> map_sum id referenceNumber
        (fst (internalTransfer ex_today ex_today 1 ''0027654321'' 1 None
           (ex_two\<lparr>accounts := [ex_account\<lparr>balance := 9007199254740994\<rparr>, ex_account2]\<rparr>)))
       = Inr ''TXN20260115000001''
   \<and> map balance (accounts (snd (internalTransfer ex_today ex_today 1 ''0027654321'' 1 None
        (ex_two\<lparr>accounts := [ex_account\<lparr>balance := 9007199254740994\<rparr>, ex_account2]\<rparr>))))
       = [9007199254740992, 5001]
   \<and> map balance (accounts ex_two) = [70000, 5000]
   \<and> map_sum id referenceNumber
        (fst (internalTransfer ex_today ex_today 1 ''0027654321'' (1 / 2) None ex_two))
       = Inr ''TXN20260115000001''
   \<and> map balance (accounts (snd (internalTransfer ex_today ex_today 1 ''0027654321'' (1 / 2) None
        ex_two))) = [70000, 5001]
   \<and> map balanceAfter (transactions (snd (internalTransfer ex_today ex_today 1 ''0027654321''
        (1 / 2) None ex_two))) = [70000, 5001]"
proof -
  have big: "internalTransfer ex_today ex_today 1 ''0027654321'' 1 None
        (ex_two\<lparr>accounts := [ex_account, ex_account2\<lparr>balance := 9007199254740906\<rparr>]\<rparr>)
     = (Inr \<lparr>referenceNumber = ''TXN20260115000001'', accountId = 1, tx_type = INTERNAL_TRANSFER,
          amount = - 1, balanceAfter = 69999, relatedAccountId = Some 2,
          relatedAccountNumber = Some ''0027654321'',
          description = Some ''Transfer to 0027654321''\<rparr>,
        ex_two\<lparr>accounts := [ex_account\<lparr>balance := 69999\<rparr>,
                             ex_account2\<lparr>balance := 9007199254740908\<rparr>],
          transactions :=
            [\<lparr>referenceNumber = ''TXN20260115000001'', accountId = 1, tx_type = INTERNAL_TRANSFER,
              amount = - 1, balanceAfter = 69999, relatedAccountId = Some 2,
              relatedAccountNumber = Some ''0027654321'',
              description = Some ''Transfer to 0027654321''\<rparr>,
             \<lparr>referenceNumber = ''TXN20260115000002'', accountId = 2, tx_type = INTERNAL_TRANSFER,
              amount = 1, balanceAfter = 9007199254740908, relatedAccountId = Some 1,
              relatedAccountNumber = Some ''0011234567'',
              description = Some ''Transfer from 0011234567''\<rparr>],
          transactionSequence := [''20260115'' \<mapsto> 2]\<rparr>)"
    by (simp add: internalTransfer_def ex_two_def ex_account2_def ex_eval beyond_credit numeral_2_eq_2)
  have half: "internalTransfer ex_today ex_today 1 ''0027654321'' (1 / 2) None ex_two
     = (Inr \<lparr>referenceNumber = ''TXN20260115000001'', accountId = 1, tx_type = INTERNAL_TRANSFER,
          amount = - 1, balanceAfter = 70000, relatedAccountId = Some 2,
          relatedAccountNumber = Some ''0027654321'',
          description = Some ''Transfer to 0027654321''\<rparr>,
        ex_two\<lparr>accounts := [ex_account, ex_account2\<lparr>balance := 5001\<rparr>],
          transactions :=
            [\<lparr>referenceNumber = ''TXN20260115000001'', accountId = 1, tx_type = INTERNAL_TRANSFER,
              amount = - 1, balanceAfter = 70000, relatedAccountId = Some 2,
              relatedAccountNumber = Some ''0027654321'',
              description = Some ''Transfer to 0027654321''\<rparr>,
             \<lparr>referenceNumber = ''TXN20260115000002'', accountId = 2, tx_type = INTERNAL_TRANSFER,
              amount = 1, balanceAfter = 5001, relatedAccountId = Some 1,
              relatedAccountNumber = Some ''0011234567'',
              description = Some ''Transfer from 0011234567''\<rparr>],
          transactionSequence := [''20260115'' \<mapsto> 2]\<rparr>)"
    by (simp add: internalTransfer_def ex_two_def ex_account2_def ex_eval half_eval numeral_2_eq_2)
  have source: "internalTransfer ex_today ex_today 1 ''0027654321'' 1 None
        (ex_two\<lparr>accounts := [ex_account\<lparr>balance := 9007199254740994\<rparr>, ex_account2]\<rparr>)
     = (Inr \<lparr>referenceNumber = ''TXN20260115000001'', accountId = 1, tx_type = INTERNAL_TRANSFER,
          amount = - 1, balanceAfter = 9007199254740992, relatedAccountId = Some 2,
          relatedAccountNumber = Some ''0027654321'',
          description = Some ''Transfer to 0027654321''\<rparr>,
        ex_two\<lparr>accounts := [ex_account\<lparr>balance := 9007199254740992\<rparr>,
                             ex_account2\<lparr>balance := 5001\<rparr>],
          transactions :=
            [\<lparr>referenceNumber = ''TXN20260115000001'', accountId = 1, tx_type = INTERNAL_TRANSFER,
              amount = - 1, balanceAfter = 9007199254740992, relatedAccountId = Some 2,
              relatedAccountNumber = Some ''0027654321'',
              description = Some ''Transfer to 0027654321''\<rparr>,
             \<lparr>referenceNumber = ''TXN20260115000002'', accountId = 2, tx_type = INTERNAL_TRANSFER,
              amount = 1, balanceAfter = 5001, relatedAccountId = Some 1,
              relatedAccountNumber = Some ''0011234567'',
              description = Some ''Transfer from 0011234567''\<rparr>],
          transactionSequence := [''20260115'' \<mapsto> 2]\<rparr>)"
    by (simp add: internalTransfer_def ex_two_def ex_account2_def ex_eval beyond_send numeral_2_eq_2)
  show ?thesis
    unfolding big half source
    by (simp add: ex_two_def ex_db_def ex_account_def ex_account2_def)
qed

section \<open>C7: reference numbers\<close>

text \<open>
  What holds of the generator. With the sequence store up and a calendar date on the clock,
  \<open>M\<close> calls in a row on one date return \<open>M\<close> distinct references. The \<open>i\<close>-th is \<open>TXN\<close>, the
  eight digits of the date, and the sequence number \<open>lastIssued + 1 + i\<close> in decimal, padded
  with zeros on the left to at least six digits: exactly six while the number is at most
  999999, more than six beyond. The sequence numbers read back from the references rise by
  one from call to call, and the first is \<open>000001\<close> when the date has no counter row.
\<close>

lemma generateReferences_sequence:
  assumes up: "\<not> sequenceStoreDown s" and date: "valid_date today"
  shows "length (fst (generateReferences today M s)) = M
       \<and> distinct (fst (generateReferences today M s))
       \<and> (\<forall>i<M. fst (generateReferences today M s) ! i =
                   Inr (''TXN'' @ dateStr_of today
                        @ padStart 6 CHR ''0'' (toString (lastIssued s today + 1 + i)))
               \<and> list_all isDigit (padStart 6 CHR ''0'' (toString (lastIssued s today + 1 + i)))
               \<and> parseDigits (padStart 6 CHR ''0'' (toString (lastIssued s today + 1 + i)))
                   = lastIssued s today + 1 + i
               \<and> (lastIssued s today + 1 + i \<le> 999999 \<longrightarrow>
                    length (padStart 6 CHR ''0'' (toString (lastIssued s today + 1 + i))) = 6)
               \<and> (999999 < lastIssued s today + 1 + i \<longrightarrow>
                    6 < length (padStart 6 CHR ''0'' (toString (lastIssued s today + 1 + i)))))
       \<and> length (dateStr_of today) = 8 \<and> list_all isDigit (dateStr_of today)
       \<and> (transactionSequence s (dateStr_of today) = None \<and> 0 < M \<longrightarrow>
            fst (generateReferences today M s) ! 0 = Inr (''TXN'' @ dateStr_of today @ ''000001''))"
proof -
  let ?refs = "fst (generateReferences today M s)"
  let ?c = "lastIssued s today"
  have closed: "?refs = map (\<lambda>i. Inr (referenceOf (dateStr_of today) (?c + 1 + i))) [0..<M]"
    by (rule generateReferences_closed [OF up])
  have len: "length ?refs = M" by (simp add: closed)
  have inj: "inj_on (\<lambda>i. (Inr (referenceOf (dateStr_of today) (?c + 1 + i)) :: exn + string)) (set [0..<M])"
    by (rule inj_onI) (auto dest: referenceOf_inj)
  have dist: "distinct ?refs" unfolding closed using inj by (simp add: distinct_map)
  have nth: "?refs ! i = Inr (''TXN'' @ dateStr_of today @ padStart 6 CHR ''0'' (toString (?c + 1 + i)))"
    if "i < M" for i using that by (simp add: closed referenceOf_def)
  have six: "length (padStart 6 CHR ''0'' (toString n)) = 6" if "n \<le> 999999" for n
    using that by (intro length_padStart_exact) simp_all
  have more: "6 < length (padStart 6 CHR ''0'' (toString n))" if "999999 < n" for n
    using that length_toString_ge [of 6 n] by (simp add: length_padStart)
  have first: "?refs ! 0 = Inr (''TXN'' @ dateStr_of today @ ''000001'')"
    if "transactionSequence s (dateStr_of today) = None" "0 < M"
  proof -
    have "?c = 0" using that(1) by (simp add: lastIssued_def)
    then show ?thesis using nth [OF that(2)]
      by (simp add: padStart_def replicate_numeral toString_lt10 digit_def)
  qed
  show ?thesis
    using len dist nth six more first
    by (simp add: padStart_digits toString_digits parseDigits_padStart dateStr_of_length [OF date]
        dateStr_of_digits [OF date])
qed

text \<open>
  C7 asks that every reference number be \<open>TXN\<close>, the eight digits of the date and a
  sequence of six digits, which is also what the schema's comment on the column says
  (\<open>TXN + YYYYMMDD + 6-digit sequence\<close>) and what the test of the generated reference
  expects (\<open>TXN\<close> and fourteen digits). On a date whose counter row stands at 999999 the
  next call returns \<open>TXN202601151000000\<close>: seven digits of sequence, eighteen characters,
  since \<open>padStart\<close> pads and does not cut.
\<close>

theorem reference_sequence_seventh_digit:
  "fst (generateReferences ex_today 1 (ex_db\<lparr>transactionSequence := [''20260115'' \<mapsto> 999999]\<rparr>))
     = [Inr ''TXN202601151000000'']
   \<and> length ''TXN202601151000000'' = 18"
  by (simp add: generateTransactionReference_up lastIssued_def ex_dateStr ex_db_def referenceOf_def
        padStart_def replicate_numeral toString_lt10 toString_ge10 digit_def split: prod.split)

section \<open>C8: a posting whose reference number cannot be drawn\<close>

text \<open>
  C8 asks that a deposit or withdrawal whose reference number cannot be drawn leave every
  balance as it was. Both procedures write the new balance first and draw the reference
  afterwards, inside \<open>createTransaction\<close>: with the sequence store down the operation
  throws, no ledger row is written, and the balance has already moved, from 700.00 to
  800.00 for a deposit of 100.00 and to 600.00 for a withdrawal of 100.00. The same happens
  on every account and for every amount that passes the checks, as the lemmas on a posting
  with the sequence store down say for whole centavos within 10,000,000,000,000.00.
\<close>

theorem posting_without_reference:
  "fst (deposit ex_today 1 10000 None (ex_db\<lparr>sequenceStoreDown := True\<rparr>)) = Inl QueryRejected
   \<and> map balance (accounts (snd (deposit ex_today 1 10000 None (ex_db\<lparr>sequenceStoreDown := True\<rparr>))))
       = [80000]
   \<and> transactions (snd (deposit ex_today 1 10000 None (ex_db\<lparr>sequenceStoreDown := True\<rparr>))) = []
   \<and> fst (withdraw ex_today 1 10000 None (ex_db\<lparr>sequenceStoreDown := True\<rparr>)) = Inl QueryRejected
   \<and> map balance (accounts (snd (withdraw ex_today 1 10000 None (ex_db\<lparr>sequenceStoreDown := True\<rparr>))))
       = [60000]
   \<and> transactions (snd (withdraw ex_today 1 10000 None (ex_db\<lparr>sequenceStoreDown := True\<rparr>))) = []
   \<and> fst (rest_withdrawal ex_today ''0011234567'' 10000 None (ex_db\<lparr>sequenceStoreDown := True\<rparr>))
       = RestError 500 ''INTERNAL_ERROR'' ''Failed to process withdrawal''
   \<and> map balance (accounts (snd (rest_withdrawal ex_today ''0011234567'' 10000 None
        (ex_db\<lparr>sequenceStoreDown := True\<rparr>)))) = [60000]"
  by (simp add: deposit_def withdraw_def rest_withdrawal_def generateTransactionReference_down ex_eval)

section \<open>C9: the arithmetic of a posting\<close>

text \<open>
  C9, as amended. For a balance and an amount that are not negative and whose sum is at
  most 10,000,000,000,000.00, the new balance the server computes for a credit (deposit,
  transfer in, reversal) is the exact sum, and for a debit of no more than the balance
  (withdrawal, transfer out, interbank send) the exact difference, in whole centavos: the
  three roundings to doubles are each off by at most \<open>1 / 1024\<close> of a peso, less in all
  than the half centavo that \<open>toFixed(2)\<close> absorbs.
\<close>

theorem posted_balance_exact:
  assumes "0 \<le> b" and "0 \<le> a" and "b + a \<le> 1000000000000000"
  shows "postedSum b a = b + a \<and> (a \<le> b \<longrightarrow> postedDifference b a = b - a)"
  using posted_exact [OF assms] by simp

text \<open>Balance 700.00 and amount 600.00.\<close>

theorem posted_balance_exact_witness:
  "(0::int) \<le> 70000 \<and> (0::int) \<le> 60000 \<and> (70000::int) + 60000 \<le> 1000000000000000
   \<and> postedSum 70000 60000 = 130000 \<and> postedDifference 70000 60000 = 10000"
proof -
  have h: "(0::int) \<le> 70000" "(0::int) \<le> 60000" "(70000::int) + 60000 \<le> 1000000000000000"
    by simp_all
  from posted_balance_exact [OF h] h show ?thesis by simp
qed

text \<open>
  C9 as stated covers every \<open>decimal(18,2)\<close> balance. The balance 90,071,992,547,409.93
  is not a double: \<open>parseFloat\<close> reads it as 90,071,992,547,409.9375, and a deposit of 1.00
  posts 90,071,992,547,410.94, one centavo more than the exact sum.
\<close>

theorem posted_balance_off_by_a_centavo:
  "postedSum 9007199254740993 100 = 9007199254741094
   \<and> (9007199254740993::int) + 100 = 9007199254741093"
  by (simp add: postedSum_def parse_big parse_one sum_big toFixed2_def floor_rat_numeral)

section \<open>C10: what a callback leaves alone\<close>

text \<open>
  C10. A callback whose status is SUCCESS or PENDING, and a FAILED callback for a
  reference whose record is not PENDING, changes no account, appends no ledger row and
  draws no reference number. In the table of interbank records it changes nothing but the
  status, the switch reference and the status message of the rows with that reference
  number, whose status becomes the callback's. So the branch that moves money runs only
  for a FAILED callback on a PENDING record.
\<close>

theorem callback_frame:
  assumes "st = SUCCESS \<or> st = PENDING
           \<or> (\<forall>t. getInstapayTransactionByReference s reference = Some t \<longrightarrow> status t \<noteq> PENDING)"
  shows "accounts (snd (updateInstapayTransactionStatus today reference st switchRef message s)) = accounts s
       \<and> transactions (snd (updateInstapayTransactionStatus today reference st switchRef message s))
           = transactions s
       \<and> transactionSequence (snd (updateInstapayTransactionStatus today reference st switchRef message s))
           = transactionSequence s
       \<and> length (instapayTransactions
            (snd (updateInstapayTransactionStatus today reference st switchRef message s)))
           = length (instapayTransactions s)
       \<and> (\<forall>i<length (instapayTransactions s).
            (instapayTransactions
               (snd (updateInstapayTransactionStatus today reference st switchRef message s)) ! i)
              \<lparr>status := status (instapayTransactions s ! i),
               switchReferenceNumber := switchReferenceNumber (instapayTransactions s ! i),
               statusMessage := statusMessage (instapayTransactions s ! i)\<rparr>
              = instapayTransactions s ! i
          \<and> (ip_referenceNumber (instapayTransactions s ! i) \<noteq> reference \<longrightarrow>
               instapayTransactions
                 (snd (updateInstapayTransactionStatus today reference st switchRef message s)) ! i
               = instapayTransactions s ! i)
          \<and> (ip_referenceNumber (instapayTransactions s ! i) = reference \<longrightarrow>
               status (instapayTransactions
                 (snd (updateInstapayTransactionStatus today reference st switchRef message s)) ! i)
               = st))"
proof (cases "getInstapayTransactionByReference s reference")
  case None
  then have none: "\<forall>t \<in> set (instapayTransactions s). ip_referenceNumber t \<noteq> reference"
    by (simp add: getInstapayTransactionByReference_def find_None_iff)
  have "snd (updateInstapayTransactionStatus today reference st switchRef message s) = s"
    using None by (simp add: callback_not_found)
  then show ?thesis using none by simp
next
  case (Some t)
  then have "\<not> (st = FAILED \<and> status t = PENDING)" using assms by auto
  then have "snd (updateInstapayTransactionStatus today reference st switchRef message s) =
      s\<lparr>instapayTransactions := setStatus reference st switchRef message t (instapayTransactions s)\<rparr>"
    by (rule callback_no_reversal [OF Some])
  then show ?thesis
    using setStatus_frame [of reference st switchRef message t "instapayTransactions s"] by simp
qed

text \<open>A SUCCESS callback on the pending record of \<open>ex_sent\<close>.\<close>

theorem callback_frame_witness:
  "(SUCCESS = SUCCESS \<or> SUCCESS = PENDING
     \<or> (\<forall>t. getInstapayTransactionByReference ex_sent ''TXN20260115000001'' = Some t \<longrightarrow> status t \<noteq> PENDING))
   \<and> accounts (snd (updateInstapayTransactionStatus ex_today ''TXN20260115000001'' SUCCESS
        (Some ''SWITCH-12345'') None ex_sent)) = [ex_account\<lparr>balance := 10000\<rparr>]
   \<and> length (transactions (snd (updateInstapayTransactionStatus ex_today ''TXN20260115000001'' SUCCESS
        (Some ''SWITCH-12345'') None ex_sent))) = 1
   \<and> status (instapayTransactions (snd (updateInstapayTransactionStatus ex_today ''TXN20260115000001''
        SUCCESS (Some ''SWITCH-12345'') None ex_sent)) ! 0) = SUCCESS"
proof -
  have h: "SUCCESS = SUCCESS \<or> SUCCESS = PENDING
     \<or> (\<forall>t. getInstapayTransactionByReference ex_sent ''TXN20260115000001'' = Some t \<longrightarrow> status t \<noteq> PENDING)"
    by simp
  have r: "ip_referenceNumber (instapayTransactions ex_sent ! 0) = ''TXN20260115000001''"
          "0 < length (instapayTransactions ex_sent)"
          "accounts ex_sent = [ex_account\<lparr>balance := 10000\<rparr>]"
          "length (transactions ex_sent) = 1"
    by (simp_all add: ex_sent_def)
  from callback_frame [OF h, of ex_today "Some ''SWITCH-12345''" None] r h show ?thesis
    by metis
qed


end
